theory Spec2Isabelle
  imports Main "HOL-Library.Word"
begin

section \<open>Frame: the reference-counted image handle (src/src/Frame.h)\<close>

text \<open>
  Pointers are addresses; \<open>None\<close> is \<open>nullptr\<close>. The objects a \<open>Data*\<close> can point
  to live in an explicit store, because several \<open>Frame\<close> objects alias one \<open>Data\<close>.
  Dereferencing an address the store does not hold is a fault (\<open>None\<close> as result).
\<close>

type_synonym addr = nat
type_synonym time_point = int

text \<open>
  Modelled from the spec: the class \<open>Image\<close> of \<open>Image.h\<close>, which is not at hand. The
  spec calls the image payload a contiguous byte buffer with a length.
\<close>

record Image =
  img_data :: "addr option"
  img_bytes :: "8 word list"

text \<open>Modelled from the spec: \<open>Image::size()\<close>, absent with \<open>Image.h\<close>; the length of the
  byte buffer.\<close>

definition Image_size :: "Image \<Rightarrow> nat" where
  "Image_size im = length (img_bytes im)"

text \<open>Modelled from the spec: \<open>Image::data()\<close>, absent with \<open>Image.h\<close>; the address of the
  byte buffer.\<close>

definition Image_data :: "Image \<Rightarrow> addr option" where
  "Image_data im = img_data im"

text \<open>
  \<open>struct Data\<close>. The counter is a \<open>std::atomic_int\<close>: 32 bits on the supported targets,
  and \<open>++\<close> and \<open>--\<close> on an atomic integer wrap around in two's complement.
\<close>

record Data =
  refcount :: "32 word"
  timestamp :: time_point
  image :: Image

record Frame =
  m_source :: "addr option"
  m_data :: "addr option"

text \<open>
  The store of \<open>Data\<close> objects, and the reclamation notifications received by the backend
  so far, oldest first.
\<close>

record fstate =
  heap :: "addr \<rightharpoonup> Data"
  released :: "Frame list"

text \<open>\<open>std::chrono::system_clock::time_point{}\<close>: zero ticks since the epoch.\<close>

definition epoch :: time_point where
  "epoch = 0"

text \<open>\<open>++(p->refcount)\<close> and \<open>--(p->refcount)\<close>; the latter yields the new value.\<close>

definition atomic_inc :: "addr \<Rightarrow> fstate \<Rightarrow> fstate option" where
  "atomic_inc p s =
     (case heap s p of
        None \<Rightarrow> None
      | Some d \<Rightarrow> Some (s\<lparr>heap := (heap s)(p \<mapsto> d\<lparr>refcount := refcount d + 1\<rparr>)\<rparr>))"

definition atomic_dec :: "addr \<Rightarrow> fstate \<Rightarrow> (32 word \<times> fstate) option" where
  "atomic_dec p s =
     (case heap s p of
        None \<Rightarrow> None
      | Some d \<Rightarrow>
          Some (refcount d - 1, s\<lparr>heap := (heap s)(p \<mapsto> d\<lparr>refcount := refcount d - 1\<rparr>)\<rparr>))"

text \<open>
  Modelled from the spec: \<open>Frame::ReleaseFrame\<close> is declared in \<open>Frame.h\<close> and defined
  elsewhere. The spec: reaching zero invokes one reclamation notification to the owning
  backend, a callback and not a direct free. The notification is recorded with the frame
  it was invoked on.
\<close>

definition ReleaseFrame :: "Frame \<Rightarrow> fstate \<Rightarrow> fstate" where
  "ReleaseFrame this s = s\<lparr>released := released s @ [this]\<rparr>"

text \<open>\<open>Frame()\<close>\<close>

definition Frame_default :: Frame where
  "Frame_default = \<lparr>m_source = None, m_data = None\<rparr>"

text \<open>\<open>Frame(SourceImpl& source, Data* data)\<close>\<close>

definition Frame_ctor :: "addr \<Rightarrow> addr option \<Rightarrow> fstate \<Rightarrow> (Frame \<times> fstate) option" where
  "Frame_ctor source data s =
     (let this = \<lparr>m_source = Some source, m_data = data\<rparr> in
      case m_data this of
        None \<Rightarrow> Some (this, s)
      | Some p \<Rightarrow> map_option (Pair this) (atomic_inc p s))"

text \<open>\<open>Frame(const Frame& frame)\<close>\<close>

definition Frame_copy :: "Frame \<Rightarrow> fstate \<Rightarrow> (Frame \<times> fstate) option" where
  "Frame_copy frame s =
     (let this = \<lparr>m_source = m_source frame, m_data = m_data frame\<rparr> in
      case m_data this of
        None \<Rightarrow> Some (this, s)
      | Some p \<Rightarrow> map_option (Pair this) (atomic_inc p s))"

text \<open>\<open>swap(Frame& first, Frame& second)\<close>: both objects after the exchange.\<close>

definition Frame_swap :: "Frame \<Rightarrow> Frame \<Rightarrow> Frame \<times> Frame" where
  "Frame_swap first second =
     (let first1 = first\<lparr>m_source := m_source second\<rparr>;
          second1 = second\<lparr>m_source := m_source first\<rparr>;
          first2 = first1\<lparr>m_data := m_data second1\<rparr>;
          second2 = second1\<lparr>m_data := m_data first1\<rparr>
      in (first2, second2))"

text \<open>\<open>Frame(Frame&& other)\<close>: the new object and \<open>other\<close> afterwards.\<close>

definition Frame_move :: "Frame \<Rightarrow> Frame \<times> Frame" where
  "Frame_move other = Frame_swap Frame_default other"

text \<open>\<open>DecRef()\<close> and \<open>~Frame()\<close>\<close>

definition DecRef :: "Frame \<Rightarrow> fstate \<Rightarrow> fstate option" where
  "DecRef this s =
     (case m_data this of
        None \<Rightarrow> Some s
      | Some p \<Rightarrow>
          (case atomic_dec p s of
             None \<Rightarrow> None
           | Some (v, s') \<Rightarrow> if v = 0 then Some (ReleaseFrame this s') else Some s'))"

definition Frame_dtor :: "Frame \<Rightarrow> fstate \<Rightarrow> fstate option" where
  "Frame_dtor this s = DecRef this s"

text \<open>
  \<open>operator=(Frame other)\<close>: the body exchanges \<open>*this\<close> with the by-value parameter;
  the result is \<open>*this\<close> and the parameter as the body leaves them.
\<close>

definition Frame_assign :: "Frame \<Rightarrow> Frame \<Rightarrow> Frame \<times> Frame" where
  "Frame_assign this other = Frame_swap this other"

text \<open>
  Objects have an identity: \<open>a = std::move(b)\<close> may name one object twice. The objects of
  a program are a function from their names to their values.
\<close>

type_synonym obj = nat

text \<open>
  The expression \<open>a = std::move(b)\<close> on the objects named \<open>a\<close> and \<open>b\<close>, which may be
  the same object: the parameter is move-constructed from \<open>b\<close>, which changes \<open>b\<close>; the
  body runs on \<open>a\<close> as it then is; and the parameter is destroyed. The result is the
  objects and the state.
\<close>

definition Frame_move_assign :: "obj \<Rightarrow> obj \<Rightarrow> (obj \<Rightarrow> Frame) \<Rightarrow> fstate
    \<Rightarrow> ((obj \<Rightarrow> Frame) \<times> fstate) option" where
  "Frame_move_assign a b objs s =
     (let (param, b') = Frame_move (objs b);
          objs = objs(b := b');
          (a', param') = Frame_assign (objs a) param;
          objs = objs(a := a')
      in map_option (Pair objs) (Frame_dtor param' s))"

text \<open>\<open>operator bool\<close>, \<open>size\<close>, \<open>data\<close>, \<open>time\<close>; \<open>None\<close> is a fault.\<close>

definition Frame_bool :: "Frame \<Rightarrow> bool" where
  "Frame_bool this = (m_data this \<noteq> None)"

definition Frame_size :: "Frame \<Rightarrow> fstate \<Rightarrow> nat option" where
  "Frame_size this s =
     (case m_data this of
        None \<Rightarrow> Some 0
      | Some p \<Rightarrow> map_option (\<lambda>d. Image_size (image d)) (heap s p))"

definition Frame_data :: "Frame \<Rightarrow> fstate \<Rightarrow> addr option option" where
  "Frame_data this s =
     (case m_data this of
        None \<Rightarrow> Some None
      | Some p \<Rightarrow> map_option (\<lambda>d. Image_data (image d)) (heap s p))"

definition Frame_time :: "Frame \<Rightarrow> fstate \<Rightarrow> time_point option" where
  "Frame_time this s =
     (case m_data this of
        None \<Rightarrow> Some epoch
      | Some p \<Rightarrow> map_option timestamp (heap s p))"

subsection \<open>Scenarios over several handles\<close>

text \<open>\<open>n\<close> copy operations on a frame: the copies made and the state after them.\<close>

fun copy_n :: "nat \<Rightarrow> Frame \<Rightarrow> fstate \<Rightarrow> (Frame list \<times> fstate) option" where
  "copy_n 0 f s = Some ([], s)"
| "copy_n (Suc n) f s =
     (case Frame_copy f s of
        None \<Rightarrow> None
      | Some (c, s') \<Rightarrow>
          (case copy_n n f s' of
             None \<Rightarrow> None
           | Some (cs, s'') \<Rightarrow> Some (c # cs, s'')))"

text \<open>Destroying the handles of a list, first to last.\<close>

fun destroy_list :: "Frame list \<Rightarrow> fstate \<Rightarrow> fstate option" where
  "destroy_list [] s = Some s"
| "destroy_list (f # fs) s =
     (case Frame_dtor f s of
        None \<Rightarrow> None
      | Some s' \<Rightarrow> destroy_list fs s')"

text \<open>
  A frame is published for the \<open>Data\<close> at \<open>p\<close>, copied \<open>n\<close> times, and the first \<open>k\<close> of
  the \<open>n + 1\<close> handles are destroyed; the result is the log of reclamation notifications.
\<close>

definition refcount_scenario :: "nat \<Rightarrow> nat \<Rightarrow> addr \<Rightarrow> addr \<Rightarrow> fstate \<Rightarrow> Frame list option" where
  "refcount_scenario n k source p s =
     (case Frame_ctor source (Some p) s of
        None \<Rightarrow> None
      | Some (f, s1) \<Rightarrow>
          (case copy_n n f s1 of
             None \<Rightarrow> None
           | Some (cs, s2) \<Rightarrow> map_option released (destroy_list (take k (f # cs)) s2)))"

text \<open>The state a frame's counter is overwritten in; used to state the lemmas below.\<close>

definition set_refcount :: "addr \<Rightarrow> 32 word \<Rightarrow> fstate \<Rightarrow> fstate" where
  "set_refcount p v s =
     \<lparr>heap = (heap s)(p := map_option
         (\<lambda>d. \<lparr>refcount = v, timestamp = timestamp d, image = image d\<rparr>) (heap s p)),
      released = released s\<rparr>"

text \<open>A store with one freshly allocated \<open>Data\<close> (counter 0) at address 0.\<close>

definition fresh_state :: fstate where
  "fresh_state =
     \<lparr>heap = [0 \<mapsto> \<lparr>refcount = 0, timestamp = 1000,
                       image = \<lparr>img_data = Some 64, img_bytes = [1, 2, 3]\<rparr>\<rparr>],
      released = []\<rparr>"

section \<open>The object-oriented wrappers (src/include/cameraserver_oo.inl)\<close>

type_synonym CS_Status = "32 word"
type_synonym CS_Handle = "32 word"
type_synonym double = "64 word"
type_synonym callback = nat

text \<open>
  \<open>VideoProperty::Type\<close>, by its underlying integer: the constructor converts the
  backend's \<open>CS_PropertyType\<close> through \<open>int\<close>.
\<close>

type_synonym Type = "32 word"

text \<open>
  Modelled from the spec: the enumerators of \<open>Type\<close> are declared in the header
  \<open>cameraserver_oo.h\<close>, which is not at hand; 0 is the universal empty value. No theorem
  below depends on the number chosen.
\<close>

definition kNone :: Type where
  "kNone = 0"

text \<open>The element type of \<open>EnumerateUSBCameras\<close>; its fields play no role here.\<close>

typedecl USBCameraInfo

subsection \<open>The backend\<close>

text \<open>
  The functions of the C++ backend API that the wrappers call, with the arguments passed
  apart from the status pointer. Doubles are bit patterns, \<open>cv::Mat*\<close> an address,
  a \<open>std::function\<close> the identity of the user's callback.
\<close>

datatype api =
    GetPropertyName CS_Handle
  | GetBooleanProperty CS_Handle
  | SetBooleanProperty CS_Handle bool
  | GetDoubleProperty CS_Handle
  | SetDoubleProperty CS_Handle double
  | GetPropertyMin CS_Handle
  | GetPropertyMax CS_Handle
  | GetPropertyStep CS_Handle
  | GetPropertyDefault CS_Handle
  | GetStringProperty CS_Handle
  | GetStringPropertyBuf CS_Handle
  | SetStringProperty CS_Handle string
  | GetEnumProperty CS_Handle
  | SetEnumProperty CS_Handle "32 word"
  | GetEnumPropertyChoices CS_Handle
  | GetPropertyType CS_Handle
  | CopySource CS_Handle
  | ReleaseSource CS_Handle
  | GetSourceName CS_Handle
  | GetSourceDescription CS_Handle
  | GetSourceLastFrameTime CS_Handle
  | IsSourceConnected CS_Handle
  | GetSourceProperty CS_Handle string
  | CreateUSBSourceDev string "32 word"
  | CreateUSBSourcePath string string
  | EnumerateUSBCameras
  | CreateHTTPSource string string
  | CreateCvSource string
  | PutSourceFrame CS_Handle "addr option"
  | NotifySourceError CS_Handle string
  | SetSourceConnected CS_Handle bool
  | CreateSourceProperty CS_Handle string "32 word"
  | CreateSourcePropertyCallback CS_Handle string "32 word" callback
  | RemoveSourceProperty CS_Handle CS_Handle
  | RemoveSourcePropertyByName CS_Handle string
  | CopySink CS_Handle
  | ReleaseSink CS_Handle
  | GetSinkName CS_Handle
  | GetSinkDescription CS_Handle
  | SetSinkSource CS_Handle CS_Handle
  | GetSinkSource CS_Handle
  | GetSinkSourceProperty CS_Handle string
  | CreateHTTPSink string string "32 word"
  | CreateCvSink string
  | CreateCvSinkCallback string callback
  | GrabSinkFrame CS_Handle "addr option"
  | GetSinkError CS_Handle
  | SetSinkEnabled CS_Handle bool
  | AddSourceListener callback "32 word"
  | RemoveSourceListener CS_Handle
  | AddSinkListener callback "32 word"
  | RemoveSinkListener CS_Handle

datatype retval =
    RVoid
  | RBool bool
  | RInt "32 word"
  | RU64 "64 word"
  | RDouble double
  | RString string
  | RStrings "string list"
  | RHandle CS_Handle
  | RCameras "USBCameraInfo list"

text \<open>
  A backend answers a call, given the value its status pointer points at and its own
  state, with the value returned, the value left at the status pointer and its new state.
  C++ types the answer of each function; the call sites below read the answer at the type
  the C++ declaration gives.
\<close>

type_synonym 'b backend = "api \<Rightarrow> CS_Status \<Rightarrow> 'b \<Rightarrow> retval \<times> CS_Status \<times> 'b"

fun as_bool :: "retval \<Rightarrow> bool" where
  "as_bool (RBool b) = b" | "as_bool _ = False"

fun as_int :: "retval \<Rightarrow> 32 word" where
  "as_int (RInt i) = i" | "as_int _ = 0"

fun as_u64 :: "retval \<Rightarrow> 64 word" where
  "as_u64 (RU64 i) = i" | "as_u64 _ = 0"

fun as_double :: "retval \<Rightarrow> double" where
  "as_double (RDouble x) = x" | "as_double _ = 0"

fun as_string :: "retval \<Rightarrow> string" where
  "as_string (RString x) = x" | "as_string _ = []"

fun as_strings :: "retval \<Rightarrow> string list" where
  "as_strings (RStrings x) = x" | "as_strings _ = []"

fun as_handle :: "retval \<Rightarrow> CS_Handle" where
  "as_handle (RHandle h) = h" | "as_handle _ = 0"

fun as_cameras :: "retval \<Rightarrow> USBCameraInfo list" where
  "as_cameras (RCameras x) = x" | "as_cameras _ = []"

text \<open>The world outside the wrappers: every backend call made so far, each with the
  value the status pointer held on entry, and the backend's state.\<close>

record 'b world =
  calls :: "(api \<times> CS_Status) list"
  bk :: 'b

text \<open>A backend call whose status pointer is the address of a local variable.\<close>

definition invoke :: "'b backend \<Rightarrow> api \<Rightarrow> CS_Status \<Rightarrow> 'b world \<Rightarrow> retval \<times> CS_Status \<times> 'b world" where
  "invoke be c status w =
     (case be c status (bk w) of
        (r, status', b) \<Rightarrow> (r, status', \<lparr>calls = calls w @ [(c, status)], bk = b\<rparr>))"

subsection \<open>The wrapper objects\<close>

text \<open>
  The listeners hold a handle; sources and sinks a handle and the last status; a property
  also its type. The three records share their field names through extension, which is
  not inheritance between the C++ classes. \<open>USBCamera\<close>, \<open>HTTPCamera\<close> and \<open>CvSource\<close>
  derive from \<open>VideoSource\<close>, \<open>HTTPSink\<close> and \<open>CvSink\<close> from \<open>VideoSink\<close>, and add no
  field.
\<close>

record Listener =
  m_handle :: CS_Handle

record Wrapper = Listener +
  m_status :: CS_Status

record VideoProperty = Wrapper +
  m_type :: Type

type_synonym SourceListener = Listener
type_synonym SinkListener = Listener
type_synonym VideoSource = Wrapper
type_synonym VideoSink = Wrapper

text \<open>A backend call whose status pointer is \<open>&m_status\<close> of the object.\<close>

definition call :: "'b backend \<Rightarrow> api \<Rightarrow> 'a Wrapper_scheme \<Rightarrow> 'b world
    \<Rightarrow> retval \<times> 'a Wrapper_scheme \<times> 'b world" where
  "call be c this w =
     (case invoke be c (m_status this) w of
        (r, status', w') \<Rightarrow> (r, this\<lparr>m_status := status'\<rparr>, w'))"

subsection \<open>VideoProperty\<close>

text \<open>
  Every method takes the object and the world and returns its result, the object
  (\<open>m_status\<close> is \<open>mutable\<close>) and the world.
\<close>

definition VideoProperty_GetName :: "'b backend \<Rightarrow> VideoProperty \<Rightarrow> 'b world
    \<Rightarrow> string \<times> VideoProperty \<times> 'b world" where
  "VideoProperty_GetName be this w =
     (let this = this\<lparr>m_status := 0\<rparr>;
          (r, this, w) = call be (GetPropertyName (m_handle this)) this w
      in (as_string r, this, w))"

definition VideoProperty_GetBoolean :: "'b backend \<Rightarrow> VideoProperty \<Rightarrow> 'b world
    \<Rightarrow> bool \<times> VideoProperty \<times> 'b world" where
  "VideoProperty_GetBoolean be this w =
     (let this = this\<lparr>m_status := 0\<rparr>;
          (r, this, w) = call be (GetBooleanProperty (m_handle this)) this w
      in (as_bool r, this, w))"

definition VideoProperty_SetBoolean :: "'b backend \<Rightarrow> bool \<Rightarrow> VideoProperty \<Rightarrow> 'b world
    \<Rightarrow> unit \<times> VideoProperty \<times> 'b world" where
  "VideoProperty_SetBoolean be value this w =
     (let this = this\<lparr>m_status := 0\<rparr>;
          (r, this, w) = call be (SetBooleanProperty (m_handle this) value) this w
      in ((), this, w))"

definition VideoProperty_GetDouble :: "'b backend \<Rightarrow> VideoProperty \<Rightarrow> 'b world
    \<Rightarrow> double \<times> VideoProperty \<times> 'b world" where
  "VideoProperty_GetDouble be this w =
     (let this = this\<lparr>m_status := 0\<rparr>;
          (r, this, w) = call be (GetDoubleProperty (m_handle this)) this w
      in (as_double r, this, w))"

definition VideoProperty_SetDouble :: "'b backend \<Rightarrow> double \<Rightarrow> VideoProperty \<Rightarrow> 'b world
    \<Rightarrow> unit \<times> VideoProperty \<times> 'b world" where
  "VideoProperty_SetDouble be value this w =
     (let this = this\<lparr>m_status := 0\<rparr>;
          (r, this, w) = call be (SetDoubleProperty (m_handle this) value) this w
      in ((), this, w))"

definition VideoProperty_GetMin :: "'b backend \<Rightarrow> VideoProperty \<Rightarrow> 'b world
    \<Rightarrow> double \<times> VideoProperty \<times> 'b world" where
  "VideoProperty_GetMin be this w =
     (let this = this\<lparr>m_status := 0\<rparr>;
          (r, this, w) = call be (GetPropertyMin (m_handle this)) this w
      in (as_double r, this, w))"

definition VideoProperty_GetMax :: "'b backend \<Rightarrow> VideoProperty \<Rightarrow> 'b world
    \<Rightarrow> double \<times> VideoProperty \<times> 'b world" where
  "VideoProperty_GetMax be this w =
     (let this = this\<lparr>m_status := 0\<rparr>;
          (r, this, w) = call be (GetPropertyMax (m_handle this)) this w
      in (as_double r, this, w))"

definition VideoProperty_GetStep :: "'b backend \<Rightarrow> VideoProperty \<Rightarrow> 'b world
    \<Rightarrow> double \<times> VideoProperty \<times> 'b world" where
  "VideoProperty_GetStep be this w =
     (let this = this\<lparr>m_status := 0\<rparr>;
          (r, this, w) = call be (GetPropertyStep (m_handle this)) this w
      in (as_double r, this, w))"

definition VideoProperty_GetDefault :: "'b backend \<Rightarrow> VideoProperty \<Rightarrow> 'b world
    \<Rightarrow> double \<times> VideoProperty \<times> 'b world" where
  "VideoProperty_GetDefault be this w =
     (let this = this\<lparr>m_status := 0\<rparr>;
          (r, this, w) = call be (GetPropertyDefault (m_handle this)) this w
      in (as_double r, this, w))"

definition VideoProperty_GetString :: "'b backend \<Rightarrow> VideoProperty \<Rightarrow> 'b world
    \<Rightarrow> string \<times> VideoProperty \<times> 'b world" where
  "VideoProperty_GetString be this w =
     (let this = this\<lparr>m_status := 0\<rparr>;
          (r, this, w) = call be (GetStringProperty (m_handle this)) this w
      in (as_string r, this, w))"

text \<open>\<open>GetString(buf)\<close>: the characters the backend stores in \<open>buf\<close> and refers to.\<close>

definition VideoProperty_GetStringBuf :: "'b backend \<Rightarrow> VideoProperty \<Rightarrow> 'b world
    \<Rightarrow> string \<times> VideoProperty \<times> 'b world" where
  "VideoProperty_GetStringBuf be this w =
     (let this = this\<lparr>m_status := 0\<rparr>;
          (r, this, w) = call be (GetStringPropertyBuf (m_handle this)) this w
      in (as_string r, this, w))"

definition VideoProperty_SetString :: "'b backend \<Rightarrow> string \<Rightarrow> VideoProperty \<Rightarrow> 'b world
    \<Rightarrow> unit \<times> VideoProperty \<times> 'b world" where
  "VideoProperty_SetString be value this w =
     (let this = this\<lparr>m_status := 0\<rparr>;
          (r, this, w) = call be (SetStringProperty (m_handle this) value) this w
      in ((), this, w))"

definition VideoProperty_GetEnum :: "'b backend \<Rightarrow> VideoProperty \<Rightarrow> 'b world
    \<Rightarrow> 32 word \<times> VideoProperty \<times> 'b world" where
  "VideoProperty_GetEnum be this w =
     (let this = this\<lparr>m_status := 0\<rparr>;
          (r, this, w) = call be (GetEnumProperty (m_handle this)) this w
      in (as_int r, this, w))"

definition VideoProperty_SetEnum :: "'b backend \<Rightarrow> 32 word \<Rightarrow> VideoProperty \<Rightarrow> 'b world
    \<Rightarrow> unit \<times> VideoProperty \<times> 'b world" where
  "VideoProperty_SetEnum be value this w =
     (let this = this\<lparr>m_status := 0\<rparr>;
          (r, this, w) = call be (SetEnumProperty (m_handle this) value) this w
      in ((), this, w))"

definition VideoProperty_GetChoices :: "'b backend \<Rightarrow> VideoProperty \<Rightarrow> 'b world
    \<Rightarrow> string list \<times> VideoProperty \<times> 'b world" where
  "VideoProperty_GetChoices be this w =
     (let this = this\<lparr>m_status := 0\<rparr>;
          (r, this, w) = call be (GetEnumPropertyChoices (m_handle this)) this w
      in (as_strings r, this, w))"

text \<open>\<open>VideoProperty(CS_Property handle)\<close>; \<open>status\<close> is the member \<open>m_status\<close>, and the
  object is complete once \<open>m_type\<close> is assigned.\<close>

definition VideoProperty_ctor :: "'b backend \<Rightarrow> CS_Handle \<Rightarrow> 'b world \<Rightarrow> VideoProperty \<times> 'b world" where
  "VideoProperty_ctor be handle w =
     (let status = 0 in
      if handle = 0 then (\<lparr>m_handle = handle, m_status = status, m_type = kNone\<rparr>, w)
      else
        (let (r, status, w) = invoke be (GetPropertyType handle) status w
         in (\<lparr>m_handle = handle, m_status = status, m_type = as_int r\<rparr>, w)))"

subsection \<open>VideoSource and the classes derived from it\<close>

text \<open>
  The header \<open>cameraserver_oo.h\<close>, which declares the classes and defines their default
  constructors, \<open>swap\<close>, \<open>operator bool\<close> and the constructors from a handle, is not
  at hand; the definitions of this part follow the spec.
\<close>

text \<open>Modelled from the spec: \<open>VideoSource()\<close> and \<open>VideoSink()\<close>, absent with the header.
  A default-constructed wrapper has identifier 0 and holds nothing; status 0 is "no
  error".\<close>

definition Wrapper_default :: Wrapper where
  "Wrapper_default = \<lparr>m_handle = 0, m_status = 0\<rparr>"

text \<open>Modelled from the spec: \<open>VideoSource(CS_Source handle)\<close>, absent with the header. The
  sink's source is queried by constructing a new handle object from the stored
  identifier.\<close>

definition Wrapper_from_handle :: "CS_Handle \<Rightarrow> Wrapper" where
  "Wrapper_from_handle handle = \<lparr>m_handle = handle, m_status = 0\<rparr>"

text \<open>Modelled from the spec: \<open>swap\<close> of two sources or two sinks, absent with the header.
  A move transfers the identifier and leaves a source that behaves identically to a
  default-constructed one, so the exchange covers both fields.\<close>

definition Wrapper_swap :: "Wrapper \<Rightarrow> Wrapper \<Rightarrow> Wrapper \<times> Wrapper" where
  "Wrapper_swap first second =
     (first\<lparr>m_status := m_status second, m_handle := m_handle second\<rparr>,
      second\<lparr>m_status := m_status first, m_handle := m_handle first\<rparr>)"

text \<open>Modelled from the spec: \<open>operator bool\<close> of a source, absent with the header. An
  identifier of 0 is always invalid; non-zero identifiers are valid.\<close>

definition Wrapper_bool :: "Wrapper \<Rightarrow> bool" where
  "Wrapper_bool this = (m_handle this \<noteq> 0)"

text \<open>Modelled from the spec: \<open>SourceListener()\<close> and \<open>SinkListener()\<close>, absent with the
  header. Default construction gives identifier 0.\<close>

definition Listener_default :: Listener where
  "Listener_default = \<lparr>m_handle = 0\<rparr>"

text \<open>Modelled from the spec: \<open>swap\<close> of two listeners, absent with the header. A move
  transfers the identifier and leaves the source at 0.\<close>

definition Listener_swap :: "Listener \<Rightarrow> Listener \<Rightarrow> Listener \<times> Listener" where
  "Listener_swap first second =
     (first\<lparr>m_handle := m_handle second\<rparr>, second\<lparr>m_handle := m_handle first\<rparr>)"

text \<open>\<open>VideoSource(const VideoSource& source)\<close>: \<open>m_status\<close> is initialised before
  \<open>m_handle\<close>, whose initialiser makes the call.\<close>

definition VideoSource_copy :: "'b backend \<Rightarrow> VideoSource \<Rightarrow> 'b world \<Rightarrow> VideoSource \<times> 'b world" where
  "VideoSource_copy be source w =
     (let this = Wrapper_default in
      if m_handle source = 0 then (this\<lparr>m_handle := 0\<rparr>, w)
      else
        (let (r, this, w) = call be (CopySource (m_handle source)) this w
         in (this\<lparr>m_handle := as_handle r\<rparr>, w)))"

text \<open>\<open>VideoSource(VideoSource&& other)\<close>: the new object and \<open>other\<close> afterwards.\<close>

definition VideoSource_move :: "VideoSource \<Rightarrow> VideoSource \<times> VideoSource" where
  "VideoSource_move other = Wrapper_swap Wrapper_default other"

text \<open>\<open>operator=(VideoSource other)\<close>: \<open>*this\<close> and the parameter as the body leaves them.\<close>

definition VideoSource_assign :: "VideoSource \<Rightarrow> VideoSource \<Rightarrow> VideoSource \<times> VideoSource" where
  "VideoSource_assign this other = Wrapper_swap this other"

text \<open>\<open>~VideoSource()\<close>: the object as the destructor leaves it, and the world.\<close>

definition VideoSource_dtor :: "'b backend \<Rightarrow> VideoSource \<Rightarrow> 'b world \<Rightarrow> VideoSource \<times> 'b world" where
  "VideoSource_dtor be this w =
     (let this = this\<lparr>m_status := 0\<rparr> in
      if m_handle this \<noteq> 0 then
        (let (r, this, w) = call be (ReleaseSource (m_handle this)) this w in (this, w))
      else (this, w))"

text \<open>
  The expression \<open>a = std::move(b)\<close> on the objects named \<open>a\<close> and \<open>b\<close>, which may be
  the same object: the parameter is move-constructed from \<open>b\<close>, which changes \<open>b\<close>; the
  body runs on \<open>a\<close> as it then is; and the parameter is destroyed. The result is the
  objects and the world.
\<close>

definition VideoSource_move_assign :: "'b backend \<Rightarrow> obj \<Rightarrow> obj \<Rightarrow> (obj \<Rightarrow> VideoSource)
    \<Rightarrow> 'b world \<Rightarrow> (obj \<Rightarrow> VideoSource) \<times> 'b world" where
  "VideoSource_move_assign be a b objs w =
     (let (param, b') = VideoSource_move (objs b);
          objs = objs(b := b');
          (a', param') = VideoSource_assign (objs a) param;
          objs = objs(a := a');
          (param'', w') = VideoSource_dtor be param' w
      in (objs, w'))"

definition VideoSource_GetName :: "'b backend \<Rightarrow> VideoSource \<Rightarrow> 'b world
    \<Rightarrow> string \<times> VideoSource \<times> 'b world" where
  "VideoSource_GetName be this w =
     (let this = this\<lparr>m_status := 0\<rparr>;
          (r, this, w) = call be (GetSourceName (m_handle this)) this w
      in (as_string r, this, w))"

definition VideoSource_GetDescription :: "'b backend \<Rightarrow> VideoSource \<Rightarrow> 'b world
    \<Rightarrow> string \<times> VideoSource \<times> 'b world" where
  "VideoSource_GetDescription be this w =
     (let this = this\<lparr>m_status := 0\<rparr>;
          (r, this, w) = call be (GetSourceDescription (m_handle this)) this w
      in (as_string r, this, w))"

definition VideoSource_GetLastFrameTime :: "'b backend \<Rightarrow> VideoSource \<Rightarrow> 'b world
    \<Rightarrow> 64 word \<times> VideoSource \<times> 'b world" where
  "VideoSource_GetLastFrameTime be this w =
     (let this = this\<lparr>m_status := 0\<rparr>;
          (r, this, w) = call be (GetSourceLastFrameTime (m_handle this)) this w
      in (as_u64 r, this, w))"

definition VideoSource_IsConnected :: "'b backend \<Rightarrow> VideoSource \<Rightarrow> 'b world
    \<Rightarrow> bool \<times> VideoSource \<times> 'b world" where
  "VideoSource_IsConnected be this w =
     (let this = this\<lparr>m_status := 0\<rparr>;
          (r, this, w) = call be (IsSourceConnected (m_handle this)) this w
      in (as_bool r, this, w))"

definition VideoSource_GetProperty :: "'b backend \<Rightarrow> string \<Rightarrow> VideoSource \<Rightarrow> 'b world
    \<Rightarrow> VideoProperty \<times> VideoSource \<times> 'b world" where
  "VideoSource_GetProperty be name this w =
     (let this = this\<lparr>m_status := 0\<rparr>;
          (r, this, w) = call be (GetSourceProperty (m_handle this) name) this w;
          (property, w) = VideoProperty_ctor be (as_handle r) w
      in (property, this, w))"

text \<open>\<open>USBCamera(name, dev)\<close>\<close>

definition USBCamera_ctor_dev :: "'b backend \<Rightarrow> string \<Rightarrow> 32 word \<Rightarrow> 'b world \<Rightarrow> VideoSource \<times> 'b world" where
  "USBCamera_ctor_dev be name dev w =
     (let this = Wrapper_default;
          (r, this, w) = call be (CreateUSBSourceDev name dev) this w
      in (this\<lparr>m_handle := as_handle r\<rparr>, w))"

text \<open>\<open>USBCamera(name, path)\<close>\<close>

definition USBCamera_ctor_path :: "'b backend \<Rightarrow> string \<Rightarrow> string \<Rightarrow> 'b world \<Rightarrow> VideoSource \<times> 'b world" where
  "USBCamera_ctor_path be name path w =
     (let this = Wrapper_default;
          (r, this, w) = call be (CreateUSBSourcePath name path) this w
      in (this\<lparr>m_handle := as_handle r\<rparr>, w))"

text \<open>The static \<open>USBCamera::EnumerateUSBCameras()\<close>; its status is a local variable.\<close>

definition USBCamera_EnumerateUSBCameras :: "'b backend \<Rightarrow> 'b world \<Rightarrow> USBCameraInfo list \<times> 'b world" where
  "USBCamera_EnumerateUSBCameras be w =
     (let status = 0;
          (r, status, w) = invoke be EnumerateUSBCameras status w
      in (as_cameras r, w))"

text \<open>\<open>HTTPCamera(name, url)\<close>\<close>

definition HTTPCamera_ctor :: "'b backend \<Rightarrow> string \<Rightarrow> string \<Rightarrow> 'b world \<Rightarrow> VideoSource \<times> 'b world" where
  "HTTPCamera_ctor be name url w =
     (let this = Wrapper_default;
          (r, this, w) = call be (CreateHTTPSource name url) this w
      in (this\<lparr>m_handle := as_handle r\<rparr>, w))"

text \<open>\<open>CvSource(name)\<close>\<close>

definition CvSource_ctor :: "'b backend \<Rightarrow> string \<Rightarrow> 'b world \<Rightarrow> VideoSource \<times> 'b world" where
  "CvSource_ctor be name w =
     (let this = Wrapper_default;
          (r, this, w) = call be (CreateCvSource name) this w
      in (this\<lparr>m_handle := as_handle r\<rparr>, w))"

definition CvSource_PutFrame :: "'b backend \<Rightarrow> addr option \<Rightarrow> VideoSource \<Rightarrow> 'b world
    \<Rightarrow> unit \<times> VideoSource \<times> 'b world" where
  "CvSource_PutFrame be image' this w =
     (let this = this\<lparr>m_status := 0\<rparr>;
          (r, this, w) = call be (PutSourceFrame (m_handle this) image') this w
      in ((), this, w))"

definition CvSource_NotifyError :: "'b backend \<Rightarrow> string \<Rightarrow> VideoSource \<Rightarrow> 'b world
    \<Rightarrow> unit \<times> VideoSource \<times> 'b world" where
  "CvSource_NotifyError be msg this w =
     (let this = this\<lparr>m_status := 0\<rparr>;
          (r, this, w) = call be (NotifySourceError (m_handle this) msg) this w
      in ((), this, w))"

definition CvSource_SetConnected :: "'b backend \<Rightarrow> bool \<Rightarrow> VideoSource \<Rightarrow> 'b world
    \<Rightarrow> unit \<times> VideoSource \<times> 'b world" where
  "CvSource_SetConnected be connected this w =
     (let this = this\<lparr>m_status := 0\<rparr>;
          (r, this, w) = call be (SetSourceConnected (m_handle this) connected) this w
      in ((), this, w))"

definition CvSource_CreateProperty :: "'b backend \<Rightarrow> string \<Rightarrow> Type \<Rightarrow> VideoSource \<Rightarrow> 'b world
    \<Rightarrow> VideoProperty \<times> VideoSource \<times> 'b world" where
  "CvSource_CreateProperty be name type this w =
     (let this = this\<lparr>m_status := 0\<rparr>;
          (r, this, w) = call be (CreateSourceProperty (m_handle this) name type) this w;
          (property, w) = VideoProperty_ctor be (as_handle r) w
      in (property, this, w))"

text \<open>\<open>CreateProperty(name, type, onChange)\<close>: the function object handed to the backend
  wraps \<open>onChange\<close>.\<close>

definition CvSource_CreatePropertyCallback :: "'b backend \<Rightarrow> string \<Rightarrow> Type \<Rightarrow> callback \<Rightarrow> VideoSource \<Rightarrow> 'b world
    \<Rightarrow> VideoProperty \<times> VideoSource \<times> 'b world" where
  "CvSource_CreatePropertyCallback be name type onChange this w =
     (let this = this\<lparr>m_status := 0\<rparr>;
          (r, this, w) = call be (CreateSourcePropertyCallback (m_handle this) name type onChange) this w;
          (property, w) = VideoProperty_ctor be (as_handle r) w
      in (property, this, w))"

definition CvSource_RemoveProperty :: "'b backend \<Rightarrow> VideoProperty \<Rightarrow> VideoSource \<Rightarrow> 'b world
    \<Rightarrow> unit \<times> VideoSource \<times> 'b world" where
  "CvSource_RemoveProperty be property this w =
     (let this = this\<lparr>m_status := 0\<rparr>;
          (r, this, w) = call be (RemoveSourceProperty (m_handle this) (m_handle property)) this w
      in ((), this, w))"

definition CvSource_RemovePropertyByName :: "'b backend \<Rightarrow> string \<Rightarrow> VideoSource \<Rightarrow> 'b world
    \<Rightarrow> unit \<times> VideoSource \<times> 'b world" where
  "CvSource_RemovePropertyByName be name this w =
     (let this = this\<lparr>m_status := 0\<rparr>;
          (r, this, w) = call be (RemoveSourcePropertyByName (m_handle this) name) this w
      in ((), this, w))"

subsection \<open>VideoSink and the classes derived from it\<close>

definition VideoSink_copy :: "'b backend \<Rightarrow> VideoSink \<Rightarrow> 'b world \<Rightarrow> VideoSink \<times> 'b world" where
  "VideoSink_copy be sink w =
     (let this = Wrapper_default in
      if m_handle sink = 0 then (this\<lparr>m_handle := 0\<rparr>, w)
      else
        (let (r, this, w) = call be (CopySink (m_handle sink)) this w
         in (this\<lparr>m_handle := as_handle r\<rparr>, w)))"

definition VideoSink_move :: "VideoSink \<Rightarrow> VideoSink \<times> VideoSink" where
  "VideoSink_move other = Wrapper_swap Wrapper_default other"

definition VideoSink_assign :: "VideoSink \<Rightarrow> VideoSink \<Rightarrow> VideoSink \<times> VideoSink" where
  "VideoSink_assign this other = Wrapper_swap this other"

definition VideoSink_dtor :: "'b backend \<Rightarrow> VideoSink \<Rightarrow> 'b world \<Rightarrow> VideoSink \<times> 'b world" where
  "VideoSink_dtor be this w =
     (let this = this\<lparr>m_status := 0\<rparr> in
      if m_handle this \<noteq> 0 then
        (let (r, this, w) = call be (ReleaseSink (m_handle this)) this w in (this, w))
      else (this, w))"

definition VideoSink_move_assign :: "'b backend \<Rightarrow> obj \<Rightarrow> obj \<Rightarrow> (obj \<Rightarrow> VideoSink)
    \<Rightarrow> 'b world \<Rightarrow> (obj \<Rightarrow> VideoSink) \<times> 'b world" where
  "VideoSink_move_assign be a b objs w =
     (let (param, b') = VideoSink_move (objs b);
          objs = objs(b := b');
          (a', param') = VideoSink_assign (objs a) param;
          objs = objs(a := a');
          (param'', w') = VideoSink_dtor be param' w
      in (objs, w'))"

definition VideoSink_GetName :: "'b backend \<Rightarrow> VideoSink \<Rightarrow> 'b world
    \<Rightarrow> string \<times> VideoSink \<times> 'b world" where
  "VideoSink_GetName be this w =
     (let this = this\<lparr>m_status := 0\<rparr>;
          (r, this, w) = call be (GetSinkName (m_handle this)) this w
      in (as_string r, this, w))"

definition VideoSink_GetDescription :: "'b backend \<Rightarrow> VideoSink \<Rightarrow> 'b world
    \<Rightarrow> string \<times> VideoSink \<times> 'b world" where
  "VideoSink_GetDescription be this w =
     (let this = this\<lparr>m_status := 0\<rparr>;
          (r, this, w) = call be (GetSinkDescription (m_handle this)) this w
      in (as_string r, this, w))"

text \<open>\<open>SetSource(VideoSource source)\<close>: the body, given the by-value parameter.\<close>

definition VideoSink_SetSource :: "'b backend \<Rightarrow> VideoSource \<Rightarrow> VideoSink \<Rightarrow> 'b world
    \<Rightarrow> unit \<times> VideoSink \<times> 'b world" where
  "VideoSink_SetSource be source this w =
     (let this = this\<lparr>m_status := 0\<rparr>;
          (r, this, w) =
            (if \<not> Wrapper_bool source then call be (SetSinkSource (m_handle this) 0) this w
             else call be (SetSinkSource (m_handle this) (m_handle source)) this w)
      in ((), this, w))"

definition VideoSink_GetSource :: "'b backend \<Rightarrow> VideoSink \<Rightarrow> 'b world
    \<Rightarrow> VideoSource \<times> VideoSink \<times> 'b world" where
  "VideoSink_GetSource be this w =
     (let this = this\<lparr>m_status := 0\<rparr>;
          (r, this, w) = call be (GetSinkSource (m_handle this)) this w
      in (Wrapper_from_handle (as_handle r), this, w))"

definition VideoSink_GetSourceProperty :: "'b backend \<Rightarrow> string \<Rightarrow> VideoSink \<Rightarrow> 'b world
    \<Rightarrow> VideoProperty \<times> VideoSink \<times> 'b world" where
  "VideoSink_GetSourceProperty be name this w =
     (let this = this\<lparr>m_status := 0\<rparr>;
          (r, this, w) = call be (GetSinkSourceProperty (m_handle this) name) this w;
          (property, w) = VideoProperty_ctor be (as_handle r) w
      in (property, this, w))"

text \<open>\<open>HTTPSink(name, listenAddress, port)\<close>\<close>

definition HTTPSink_ctor :: "'b backend \<Rightarrow> string \<Rightarrow> string \<Rightarrow> 32 word \<Rightarrow> 'b world \<Rightarrow> VideoSink \<times> 'b world" where
  "HTTPSink_ctor be name listenAddress port w =
     (let this = Wrapper_default;
          (r, this, w) = call be (CreateHTTPSink name listenAddress port) this w
      in (this\<lparr>m_handle := as_handle r\<rparr>, w))"

text \<open>\<open>CvSink(name)\<close>\<close>

definition CvSink_ctor :: "'b backend \<Rightarrow> string \<Rightarrow> 'b world \<Rightarrow> VideoSink \<times> 'b world" where
  "CvSink_ctor be name w =
     (let this = Wrapper_default;
          (r, this, w) = call be (CreateCvSink name) this w
      in (this\<lparr>m_handle := as_handle r\<rparr>, w))"

text \<open>\<open>CvSink(name, processFrame)\<close>\<close>

definition CvSink_ctor_callback :: "'b backend \<Rightarrow> string \<Rightarrow> callback \<Rightarrow> 'b world \<Rightarrow> VideoSink \<times> 'b world" where
  "CvSink_ctor_callback be name processFrame w =
     (let this = Wrapper_default;
          (r, this, w) = call be (CreateCvSinkCallback name processFrame) this w
      in (this\<lparr>m_handle := as_handle r\<rparr>, w))"

definition CvSink_GrabFrame :: "'b backend \<Rightarrow> addr option \<Rightarrow> VideoSink \<Rightarrow> 'b world
    \<Rightarrow> 64 word \<times> VideoSink \<times> 'b world" where
  "CvSink_GrabFrame be image' this w =
     (let this = this\<lparr>m_status := 0\<rparr>;
          (r, this, w) = call be (GrabSinkFrame (m_handle this) image') this w
      in (as_u64 r, this, w))"

definition CvSink_GetError :: "'b backend \<Rightarrow> VideoSink \<Rightarrow> 'b world
    \<Rightarrow> string \<times> VideoSink \<times> 'b world" where
  "CvSink_GetError be this w =
     (let this = this\<lparr>m_status := 0\<rparr>;
          (r, this, w) = call be (GetSinkError (m_handle this)) this w
      in (as_string r, this, w))"

definition CvSink_SetEnabled :: "'b backend \<Rightarrow> bool \<Rightarrow> VideoSink \<Rightarrow> 'b world
    \<Rightarrow> unit \<times> VideoSink \<times> 'b world" where
  "CvSink_SetEnabled be enabled this w =
     (let this = this\<lparr>m_status := 0\<rparr>;
          (r, this, w) = call be (SetSinkEnabled (m_handle this) enabled) this w
      in ((), this, w))"

subsection \<open>The listeners\<close>

text \<open>In both listeners the status is a local variable of the constructor and of the
  destructor; the function object handed to the backend wraps \<open>callback\<close>.\<close>

definition SourceListener_ctor :: "'b backend \<Rightarrow> callback \<Rightarrow> 32 word \<Rightarrow> 'b world
    \<Rightarrow> SourceListener \<times> 'b world" where
  "SourceListener_ctor be callback eventMask w =
     (let status = 0;
          (r, status, w) = invoke be (AddSourceListener callback eventMask) status w
      in (\<lparr>m_handle = as_handle r\<rparr>, w))"

definition SourceListener_move :: "SourceListener \<Rightarrow> SourceListener \<times> SourceListener" where
  "SourceListener_move other = Listener_swap Listener_default other"

text \<open>\<open>~SourceListener()\<close>: the local status as the destructor leaves it, and the world.\<close>

definition SourceListener_dtor :: "'b backend \<Rightarrow> SourceListener \<Rightarrow> 'b world \<Rightarrow> CS_Status \<times> 'b world" where
  "SourceListener_dtor be this w =
     (let status = 0 in
      if m_handle this \<noteq> 0 then
        (let (r, status, w) = invoke be (RemoveSourceListener (m_handle this)) status w
         in (status, w))
      else (status, w))"

definition SinkListener_ctor :: "'b backend \<Rightarrow> callback \<Rightarrow> 32 word \<Rightarrow> 'b world
    \<Rightarrow> SinkListener \<times> 'b world" where
  "SinkListener_ctor be callback eventMask w =
     (let status = 0;
          (r, status, w) = invoke be (AddSinkListener callback eventMask) status w
      in (\<lparr>m_handle = as_handle r\<rparr>, w))"

definition SinkListener_move :: "SinkListener \<Rightarrow> SinkListener \<times> SinkListener" where
  "SinkListener_move other = Listener_swap Listener_default other"

definition SinkListener_dtor :: "'b backend \<Rightarrow> SinkListener \<Rightarrow> 'b world \<Rightarrow> CS_Status \<times> 'b world" where
  "SinkListener_dtor be this w =
     (let status = 0 in
      if m_handle this \<noteq> 0 then
        (let (r, status, w) = invoke be (RemoveSinkListener (m_handle this)) status w
         in (status, w))
      else (status, w))"

subsection \<open>All accessor methods\<close>

text \<open>
  The accessor methods of \<open>VideoProperty\<close>, and those of the source and sink classes, as
  data, so that a statement can range over them. Running one yields the object and the
  world after the call.
\<close>

datatype property_accessor =
    P_GetName | P_GetBoolean | P_SetBoolean bool | P_GetDouble | P_SetDouble double
  | P_GetMin | P_GetMax | P_GetStep | P_GetDefault | P_GetString | P_GetStringBuf
  | P_SetString string | P_GetEnum | P_SetEnum "32 word" | P_GetChoices

fun run_property_accessor :: "'b backend \<Rightarrow> property_accessor \<Rightarrow> VideoProperty \<Rightarrow> 'b world
    \<Rightarrow> VideoProperty \<times> 'b world" where
  "run_property_accessor be P_GetName this w = snd (VideoProperty_GetName be this w)"
| "run_property_accessor be P_GetBoolean this w = snd (VideoProperty_GetBoolean be this w)"
| "run_property_accessor be (P_SetBoolean v) this w = snd (VideoProperty_SetBoolean be v this w)"
| "run_property_accessor be P_GetDouble this w = snd (VideoProperty_GetDouble be this w)"
| "run_property_accessor be (P_SetDouble v) this w = snd (VideoProperty_SetDouble be v this w)"
| "run_property_accessor be P_GetMin this w = snd (VideoProperty_GetMin be this w)"
| "run_property_accessor be P_GetMax this w = snd (VideoProperty_GetMax be this w)"
| "run_property_accessor be P_GetStep this w = snd (VideoProperty_GetStep be this w)"
| "run_property_accessor be P_GetDefault this w = snd (VideoProperty_GetDefault be this w)"
| "run_property_accessor be P_GetString this w = snd (VideoProperty_GetString be this w)"
| "run_property_accessor be P_GetStringBuf this w = snd (VideoProperty_GetStringBuf be this w)"
| "run_property_accessor be (P_SetString v) this w = snd (VideoProperty_SetString be v this w)"
| "run_property_accessor be P_GetEnum this w = snd (VideoProperty_GetEnum be this w)"
| "run_property_accessor be (P_SetEnum v) this w = snd (VideoProperty_SetEnum be v this w)"
| "run_property_accessor be P_GetChoices this w = snd (VideoProperty_GetChoices be this w)"

datatype wrapper_accessor =
    W_Source_GetName | W_Source_GetDescription | W_Source_GetLastFrameTime | W_Source_IsConnected
  | W_Source_GetProperty string
  | W_CvSource_PutFrame "addr option" | W_CvSource_NotifyError string | W_CvSource_SetConnected bool
  | W_CvSource_CreateProperty string Type | W_CvSource_CreatePropertyCallback string Type callback
  | W_CvSource_RemoveProperty VideoProperty | W_CvSource_RemovePropertyByName string
  | W_Sink_GetName | W_Sink_GetDescription | W_Sink_SetSource VideoSource | W_Sink_GetSource
  | W_Sink_GetSourceProperty string
  | W_CvSink_GrabFrame "addr option" | W_CvSink_GetError | W_CvSink_SetEnabled bool

fun run_wrapper_accessor :: "'b backend \<Rightarrow> wrapper_accessor \<Rightarrow> Wrapper \<Rightarrow> 'b world
    \<Rightarrow> Wrapper \<times> 'b world" where
  "run_wrapper_accessor be W_Source_GetName this w = snd (VideoSource_GetName be this w)"
| "run_wrapper_accessor be W_Source_GetDescription this w = snd (VideoSource_GetDescription be this w)"
| "run_wrapper_accessor be W_Source_GetLastFrameTime this w = snd (VideoSource_GetLastFrameTime be this w)"
| "run_wrapper_accessor be W_Source_IsConnected this w = snd (VideoSource_IsConnected be this w)"
| "run_wrapper_accessor be (W_Source_GetProperty n) this w = snd (VideoSource_GetProperty be n this w)"
| "run_wrapper_accessor be (W_CvSource_PutFrame i) this w = snd (CvSource_PutFrame be i this w)"
| "run_wrapper_accessor be (W_CvSource_NotifyError m) this w = snd (CvSource_NotifyError be m this w)"
| "run_wrapper_accessor be (W_CvSource_SetConnected c) this w = snd (CvSource_SetConnected be c this w)"
| "run_wrapper_accessor be (W_CvSource_CreateProperty n t) this w = snd (CvSource_CreateProperty be n t this w)"
| "run_wrapper_accessor be (W_CvSource_CreatePropertyCallback n t f) this w =
     snd (CvSource_CreatePropertyCallback be n t f this w)"
| "run_wrapper_accessor be (W_CvSource_RemoveProperty p) this w = snd (CvSource_RemoveProperty be p this w)"
| "run_wrapper_accessor be (W_CvSource_RemovePropertyByName n) this w =
     snd (CvSource_RemovePropertyByName be n this w)"
| "run_wrapper_accessor be W_Sink_GetName this w = snd (VideoSink_GetName be this w)"
| "run_wrapper_accessor be W_Sink_GetDescription this w = snd (VideoSink_GetDescription be this w)"
| "run_wrapper_accessor be (W_Sink_SetSource s) this w = snd (VideoSink_SetSource be s this w)"
| "run_wrapper_accessor be W_Sink_GetSource this w = snd (VideoSink_GetSource be this w)"
| "run_wrapper_accessor be (W_Sink_GetSourceProperty n) this w =
     snd (VideoSink_GetSourceProperty be n this w)"
| "run_wrapper_accessor be (W_CvSink_GrabFrame i) this w = snd (CvSink_GrabFrame be i this w)"
| "run_wrapper_accessor be W_CvSink_GetError this w = snd (CvSink_GetError be this w)"
| "run_wrapper_accessor be (W_CvSink_SetEnabled e) this w = snd (CvSink_SetEnabled be e this w)"

text \<open>What a backend answers to a call entered with status 0: the status it leaves, and
  whether it reports a failure (no handle, and a status that is not "no error").\<close>

definition status_left :: "'b backend \<Rightarrow> api \<Rightarrow> 'b world \<Rightarrow> CS_Status" where
  "status_left be c w = fst (snd (be c 0 (bk w)))"

definition reports_failure :: "'b backend \<Rightarrow> api \<Rightarrow> 'b world \<Rightarrow> bool" where
  "reports_failure be c w = (as_handle (fst (be c 0 (bk w))) = 0 \<and> status_left be c w \<noteq> 0)"

subsection \<open>Backends to run the definitions on\<close>

text \<open>A backend without state that answers every call with the same value and status.\<close>

definition const_backend :: "retval \<Rightarrow> CS_Status \<Rightarrow> unit backend" where
  "const_backend r status = (\<lambda>c status0 b. (r, status, b))"

definition empty_world :: "unit world" where
  "empty_world = \<lparr>calls = [], bk = ()\<rparr>"

text \<open>The same store once a frame has been published for the buffer: one reference.\<close>

definition live_state :: fstate where
  "live_state =
     \<lparr>heap = [0 \<mapsto> \<lparr>refcount = 1, timestamp = 1000,
                       image = \<lparr>img_data = Some 64, img_bytes = [1, 2, 3]\<rparr>\<rparr>],
      released = []\<rparr>"

text \<open>The same store with two handles on the buffer.\<close>

definition shared_state :: fstate where
  "shared_state =
     \<lparr>heap = [0 \<mapsto> \<lparr>refcount = 2, timestamp = 1000,
                       image = \<lparr>img_data = Some 64, img_bytes = [1, 2, 3]\<rparr>\<rparr>],
      released = []\<rparr>"

text \<open>Objects to run the assignments on: frames with object 0 empty and object 1 on the
  buffer; frames with both objects on the buffer; wrappers with object 0 empty and object 1
  holding 7; wrappers with object 0 holding 5 and object 1 holding 7.\<close>

definition frame_objs :: "obj \<Rightarrow> Frame" where
  "frame_objs = (\<lambda>_. Frame_default)(1 := \<lparr>m_source = Some 7, m_data = Some 0\<rparr>)"

definition shared_objs :: "obj \<Rightarrow> Frame" where
  "shared_objs = (\<lambda>_. Frame_default)
     (0 := \<lparr>m_source = Some 7, m_data = Some 0\<rparr>, 1 := \<lparr>m_source = Some 7, m_data = Some 0\<rparr>)"

definition wrapper_objs :: "obj \<Rightarrow> Wrapper" where
  "wrapper_objs = (\<lambda>_. Wrapper_default)(1 := \<lparr>m_handle = 7, m_status = 0\<rparr>)"

definition holding_objs :: "obj \<Rightarrow> Wrapper" where
  "holding_objs = (\<lambda>_. Wrapper_default)
     (0 := \<lparr>m_handle = 5, m_status = 0\<rparr>, 1 := \<lparr>m_handle = 7, m_status = 0\<rparr>)"

section \<open>Lemmas\<close>

subsection \<open>The counter of one buffer\<close>

lemma set_refcount_heap [simp]:
  "heap s p = Some d \<Longrightarrow> heap (set_refcount p v s) p = Some (d\<lparr>refcount := v\<rparr>)"
  by (simp add: set_refcount_def)

lemma set_refcount_idem [simp]:
  "set_refcount p v (set_refcount p u s) = set_refcount p v s"
  by (simp add: set_refcount_def option.map_comp comp_def)

lemma set_refcount_released [simp]: "released (set_refcount p v s) = released s"
  by (simp add: set_refcount_def)

lemma set_refcount_same:
  "heap s p = Some d \<Longrightarrow> refcount d = v \<Longrightarrow> set_refcount p v s = s"
  by (cases s, cases d) (auto simp: set_refcount_def fun_eq_iff)

lemma Frame_ctor_fresh:
  "heap s p = Some d \<Longrightarrow> refcount d = 0 \<Longrightarrow>
   Frame_ctor source (Some p) s
     = Some (\<lparr>m_source = Some source, m_data = Some p\<rparr>, set_refcount p 1 s)"
  by (cases s, cases d) (simp add: Frame_ctor_def atomic_inc_def set_refcount_def)

lemma Frame_copy_nonnull:
  "heap s p = Some d \<Longrightarrow> m_data f = Some p \<Longrightarrow>
   Frame_copy f s = Some (f, set_refcount p (refcount d + 1) s)"
  by (cases s, cases d) (simp add: Frame_copy_def atomic_inc_def set_refcount_def)

lemma copy_n_result:
  "heap s p = Some d \<Longrightarrow> m_data f = Some p \<Longrightarrow>
   copy_n n f s = Some (replicate n f, set_refcount p (refcount d + of_nat n) s)"
proof (induction n arbitrary: s d)
  case 0
  then show ?case by (simp add: set_refcount_same)
next
  case (Suc n)
  let ?s = "set_refcount p (refcount d + 1) s"
  have c: "Frame_copy f s = Some (f, ?s)"
    using Suc.prems by (rule Frame_copy_nonnull)
  have h: "heap ?s p = Some (d\<lparr>refcount := refcount d + 1\<rparr>)"
    using Suc.prems(1) by simp
  show ?case
    using Suc.IH [OF h Suc.prems(2)] c by (simp add: add.assoc)
qed

lemma Frame_dtor_null: "m_data a = None \<Longrightarrow> Frame_dtor a s = Some s"
  by (simp add: Frame_dtor_def DecRef_def)

lemma Frame_dtor_not_last:
  "heap s p = Some d \<Longrightarrow> m_data f = Some p \<Longrightarrow> refcount d \<noteq> 1 \<Longrightarrow>
   Frame_dtor f s = Some (set_refcount p (refcount d - 1) s)"
  by (cases s, cases d) (simp add: Frame_dtor_def DecRef_def atomic_dec_def set_refcount_def)

lemma Frame_dtor_last:
  "heap s p = Some d \<Longrightarrow> m_data f = Some p \<Longrightarrow> refcount d = 1 \<Longrightarrow>
   Frame_dtor f s = Some (ReleaseFrame f (set_refcount p 0 s))"
  by (cases s, cases d) (simp add: Frame_dtor_def DecRef_def atomic_dec_def set_refcount_def)

text \<open>As long as no decrement reaches the counter's value, destroying handles only counts
  down.\<close>

lemma destroy_replicate_quiet:
  "heap s p = Some d \<Longrightarrow> m_data f = Some p \<Longrightarrow>
   (\<forall>j. 0 < j \<and> j \<le> k \<longrightarrow> (of_nat j :: 32 word) \<noteq> refcount d) \<Longrightarrow>
   destroy_list (replicate k f) s = Some (set_refcount p (refcount d - of_nat k) s)"
proof (induction k arbitrary: s d)
  case 0
  then show ?case by (simp add: set_refcount_same)
next
  case (Suc k)
  let ?d = "d\<lparr>refcount := refcount d - 1\<rparr>"
  let ?s = "set_refcount p (refcount d - 1) s"
  have "(of_nat (Suc 0) :: 32 word) \<noteq> refcount d"
    using Suc.prems(3) [rule_format, of "Suc 0"] by simp
  then have ne: "refcount d \<noteq> 1" by auto
  have dt: "Frame_dtor f s = Some ?s"
    using Suc.prems(1,2) ne by (rule Frame_dtor_not_last)
  have h: "heap ?s p = Some ?d" using Suc.prems(1) by simp
  have q: "\<forall>j. 0 < j \<and> j \<le> k \<longrightarrow> (of_nat j :: 32 word) \<noteq> refcount ?d"
  proof (intro allI impI)
    fix j assume j: "0 < j \<and> j \<le> k"
    have "(of_nat (Suc j) :: 32 word) \<noteq> refcount d"
      using Suc.prems(3) [rule_format, of "Suc j"] j by simp
    then show "(of_nat j :: 32 word) \<noteq> refcount ?d"
      by (auto simp: algebra_simps)
  qed
  show ?case
    using Suc.IH [OF h Suc.prems(2) q] dt by (simp add: diff_diff_eq add.commute)
qed

lemma destroy_list_append:
  "destroy_list (xs @ ys) s =
     (case destroy_list xs s of None \<Rightarrow> None | Some s' \<Rightarrow> destroy_list ys s')"
  by (induction xs arbitrary: s) (auto split: option.splits)

text \<open>Below \<open>2 ^ 32\<close> copies, the counter after them differs from every smaller number of
  decrements.\<close>

lemma of_nat_ne_count:
  assumes "n < 2 ^ 32" "0 < j" "j \<le> n"
  shows "(of_nat j :: 32 word) \<noteq> 1 + of_nat n"
proof
  assume "(of_nat j :: 32 word) = 1 + of_nat n"
  then have "(of_nat j :: 32 word) = of_nat (Suc n)" by simp
  then have "take_bit 32 j = take_bit 32 (Suc n)"
    unfolding word_of_nat_eq_iff by simp
  then have "j mod 2 ^ 32 = Suc n mod 2 ^ 32" by (simp add: take_bit_eq_mod)
  moreover have "j mod 2 ^ 32 = j" using assms by simp
  ultimately have e: "Suc n mod 2 ^ 32 = j" by simp
  show False
  proof (cases "Suc n < 2 ^ 32")
    case True
    then show ?thesis using e assms by simp
  next
    case False
    then have "Suc n = 2 ^ 32" using assms by simp
    then show ?thesis using e assms by simp
  qed
qed

lemma scenario_quiet:
  assumes h: "heap s p = Some d" and r: "refcount d = 0" and n: "n < 2 ^ 32" and k: "k \<le> n"
  shows "refcount_scenario n k source p s = Some (released s)"
proof -
  let ?f = "\<lparr>m_source = Some source, m_data = Some p\<rparr>"
  let ?s1 = "set_refcount p 1 s"
  have c: "Frame_ctor source (Some p) s = Some (?f, ?s1)"
    using h r by (rule Frame_ctor_fresh)
  have h1: "heap ?s1 p = Some (d\<lparr>refcount := 1\<rparr>)" using h by simp
  have cp: "copy_n n ?f ?s1 = Some (replicate n ?f, set_refcount p (1 + of_nat n) ?s1)"
    using copy_n_result [OF h1, of ?f n] by simp
  let ?s2 = "set_refcount p (1 + of_nat n) s"
  have h2: "heap ?s2 p = Some (d\<lparr>refcount := 1 + of_nat n\<rparr>)" using h by simp
  have t: "take k (?f # replicate n ?f) = replicate k ?f"
    using k by (simp flip: replicate_Suc add: min_def)
  have q: "\<forall>j. 0 < j \<and> j \<le> k \<longrightarrow>
      (of_nat j :: 32 word) \<noteq> refcount (d\<lparr>refcount := 1 + of_nat n\<rparr>)"
    using of_nat_ne_count [OF n] k by simp
  have "destroy_list (replicate k ?f) ?s2
      = Some (set_refcount p (refcount (d\<lparr>refcount := 1 + of_nat n\<rparr>) - of_nat k) ?s2)"
    by (rule destroy_replicate_quiet [OF h2 _ q]) simp
  then show ?thesis
    using c cp t by (simp add: refcount_scenario_def)
qed

lemma scenario_last:
  assumes h: "heap s p = Some d" and r: "refcount d = 0" and n: "n < 2 ^ 32"
  shows "refcount_scenario n (Suc n) source p s
           = Some (released s @ [\<lparr>m_source = Some source, m_data = Some p\<rparr>])"
proof -
  let ?f = "\<lparr>m_source = Some source, m_data = Some p\<rparr>"
  let ?s1 = "set_refcount p 1 s"
  have c: "Frame_ctor source (Some p) s = Some (?f, ?s1)"
    using h r by (rule Frame_ctor_fresh)
  have h1: "heap ?s1 p = Some (d\<lparr>refcount := 1\<rparr>)" using h by simp
  have cp: "copy_n n ?f ?s1 = Some (replicate n ?f, set_refcount p (1 + of_nat n) ?s1)"
    using copy_n_result [OF h1, of ?f n] by simp
  let ?s2 = "set_refcount p (1 + of_nat n) s"
  let ?d2 = "d\<lparr>refcount := 1 + of_nat n\<rparr>"
  have h2: "heap ?s2 p = Some ?d2" using h by simp
  have t: "take (Suc n) (?f # replicate n ?f) = replicate n ?f @ [?f]"
    by (simp add: replicate_append_same)
  have q: "\<forall>j. 0 < j \<and> j \<le> n \<longrightarrow> (of_nat j :: 32 word) \<noteq> refcount ?d2"
    using of_nat_ne_count [OF n] by simp
  have d1: "destroy_list (replicate n ?f) ?s2
      = Some (set_refcount p (refcount ?d2 - of_nat n) ?s2)"
    by (rule destroy_replicate_quiet [OF h2 _ q]) simp
  have e3: "set_refcount p (refcount ?d2 - of_nat n) ?s2 = ?s1" by simp
  have d2: "Frame_dtor ?f ?s1 = Some (ReleaseFrame ?f (set_refcount p 0 ?s1))"
    by (rule Frame_dtor_last [OF h1]) simp_all
  show ?thesis
    using c cp d1 d2
    by (simp add: refcount_scenario_def t destroy_list_append e3 ReleaseFrame_def
             del: take_Suc_Cons)
qed

text \<open>After \<open>2 ^ 32\<close> copies the counter is back at 1, and the first destroy notifies.\<close>

lemma scenario_early:
  assumes h: "heap s p = Some d" and r: "refcount d = 0"
  shows "refcount_scenario (2 ^ 32) 1 source p s
           = Some (released s @ [\<lparr>m_source = Some source, m_data = Some p\<rparr>])"
proof -
  let ?f = "\<lparr>m_source = Some source, m_data = Some p\<rparr>"
  let ?s1 = "set_refcount p 1 s"
  have c: "Frame_ctor source (Some p) s = Some (?f, ?s1)"
    using h r by (rule Frame_ctor_fresh)
  have h1: "heap ?s1 p = Some (d\<lparr>refcount := 1\<rparr>)" using h by simp
  have w: "(of_nat (2 ^ 32) :: 32 word) = 0" by simp
  have cp: "copy_n (2 ^ 32) ?f ?s1 = Some (replicate (2 ^ 32) ?f, ?s1)"
    using copy_n_result [OF h1, of ?f "2 ^ 32"] by (simp only: w) simp
  have d2: "Frame_dtor ?f ?s1 = Some (ReleaseFrame ?f (set_refcount p 0 ?s1))"
    by (rule Frame_dtor_last [OF h1]) simp_all
  show ?thesis
    using c cp d2
    by (simp add: refcount_scenario_def ReleaseFrame_def)
qed

lemma fresh_state_heap:
  "heap fresh_state 0 = Some \<lparr>refcount = 0, timestamp = 1000,
      image = \<lparr>img_data = Some 64, img_bytes = [1, 2, 3]\<rparr>\<rparr>"
  by (simp add: fresh_state_def)

lemma live_state_heap:
  "heap live_state 0 = Some \<lparr>refcount = 1, timestamp = 1000,
      image = \<lparr>img_data = Some 64, img_bytes = [1, 2, 3]\<rparr>\<rparr>"
  by (simp add: live_state_def)

subsection \<open>Backend calls\<close>

lemma invoke_eq:
  "invoke be c st w =
     (fst (be c st (bk w)), fst (snd (be c st (bk w))),
      \<lparr>calls = calls w @ [(c, st)], bk = snd (snd (be c st (bk w)))\<rparr>)"
  by (simp add: invoke_def split: prod.splits)

lemma call_eq:
  "call be c this w =
     (fst (be c (m_status this) (bk w)),
      this\<lparr>m_status := fst (snd (be c (m_status this) (bk w)))\<rparr>,
      \<lparr>calls = calls w @ [(c, m_status this)], bk = snd (snd (be c (m_status this) (bk w)))\<rparr>)"
  by (simp add: call_def invoke_def split: prod.splits)

lemmas property_defs =
  VideoProperty_GetName_def VideoProperty_GetBoolean_def VideoProperty_SetBoolean_def
  VideoProperty_GetDouble_def VideoProperty_SetDouble_def VideoProperty_GetMin_def
  VideoProperty_GetMax_def VideoProperty_GetStep_def VideoProperty_GetDefault_def
  VideoProperty_GetString_def VideoProperty_GetStringBuf_def VideoProperty_SetString_def
  VideoProperty_GetEnum_def VideoProperty_SetEnum_def VideoProperty_GetChoices_def

lemmas wrapper_defs =
  VideoSource_GetName_def VideoSource_GetDescription_def VideoSource_GetLastFrameTime_def
  VideoSource_IsConnected_def VideoSource_GetProperty_def CvSource_PutFrame_def
  CvSource_NotifyError_def CvSource_SetConnected_def CvSource_CreateProperty_def
  CvSource_CreatePropertyCallback_def CvSource_RemoveProperty_def
  CvSource_RemovePropertyByName_def VideoSink_GetName_def VideoSink_GetDescription_def
  VideoSink_SetSource_def VideoSink_GetSource_def VideoSink_GetSourceProperty_def
  CvSink_GrabFrame_def CvSink_GetError_def CvSink_SetEnabled_def

lemma property_accessor_log:
  "\<exists>c rest. calls (snd (run_property_accessor be m p w)) = calls w @ (c, 0) # rest
      \<and> m_status (fst (run_property_accessor be m p w)) = status_left be c w"
  by (cases m) (simp_all add: property_defs call_eq Let_def status_left_def)

lemma property_accessor_indep:
  "run_property_accessor be m (p\<lparr>m_status := st\<rparr>) w = run_property_accessor be m p w"
  by (cases m) (simp_all add: property_defs call_eq Let_def)

lemma wrapper_accessor_log:
  "\<exists>c rest. calls (snd (run_wrapper_accessor be m x w)) = calls w @ (c, 0) # rest
      \<and> m_status (fst (run_wrapper_accessor be m x w)) = status_left be c w"
  by (cases m)
    (simp_all add: wrapper_defs call_eq invoke_eq Let_def status_left_def VideoProperty_ctor_def
      split: prod.splits)

lemma wrapper_accessor_indep:
  "run_wrapper_accessor be m (x\<lparr>m_status := st\<rparr>) w = run_wrapper_accessor be m x w"
  by (cases m) (simp_all add: wrapper_defs call_eq Let_def)

lemma enumerate_eq:
  "USBCamera_EnumerateUSBCameras be w =
     (as_cameras (fst (be EnumerateUSBCameras 0 (bk w))),
      \<lparr>calls = calls w @ [(EnumerateUSBCameras, 0)],
       bk = snd (snd (be EnumerateUSBCameras 0 (bk w)))\<rparr>)"
  by (simp add: USBCamera_EnumerateUSBCameras_def invoke_eq Let_def)

subsection \<open>Swapping and moving\<close>

lemma Frame_swap_eq: "Frame_swap a b = (b, a)"
  by (simp add: Frame_swap_def Let_def)

lemma Wrapper_swap_eq: "Wrapper_swap a b = (b, a)"
  by (simp add: Wrapper_swap_def)

lemma Listener_swap_eq: "Listener_swap a b = (b, a)"
  by (simp add: Listener_swap_def)

lemma VideoSource_dtor_null: "m_handle x = 0 \<Longrightarrow> snd (VideoSource_dtor be x w) = w"
  by (simp add: VideoSource_dtor_def Let_def)

lemma VideoSink_dtor_null: "m_handle x = 0 \<Longrightarrow> snd (VideoSink_dtor be x w) = w"
  by (simp add: VideoSink_dtor_def Let_def)

lemma VideoSource_dtor_default: "snd (VideoSource_dtor be Wrapper_default w) = w"
  by (simp add: VideoSource_dtor_null Wrapper_default_def)

lemma VideoSink_dtor_default: "snd (VideoSink_dtor be Wrapper_default w) = w"
  by (simp add: VideoSink_dtor_null Wrapper_default_def)

lemma Frame_dtor_default: "Frame_dtor Frame_default s = Some s"
  by (simp add: Frame_dtor_null Frame_default_def)

lemma Frame_move_assign_eq:
  "Frame_move_assign a b objs s =
     map_option (Pair (objs(b := Frame_default, a := objs b)))
       (Frame_dtor ((objs(b := Frame_default)) a) s)"
  by (simp add: Frame_move_assign_def Frame_move_def Frame_assign_def Frame_swap_eq)

lemma VideoSource_move_assign_eq:
  "VideoSource_move_assign be a b objs w =
     (objs(b := Wrapper_default, a := objs b),
      snd (VideoSource_dtor be ((objs(b := Wrapper_default)) a) w))"
  by (simp add: VideoSource_move_assign_def VideoSource_move_def VideoSource_assign_def
      Wrapper_swap_eq case_prod_beta)

lemma VideoSink_move_assign_eq:
  "VideoSink_move_assign be a b objs w =
     (objs(b := Wrapper_default, a := objs b),
      snd (VideoSink_dtor be ((objs(b := Wrapper_default)) a) w))"
  by (simp add: VideoSink_move_assign_def VideoSink_move_def VideoSink_assign_def
      Wrapper_swap_eq case_prod_beta)

lemma const_backend_fails:
  "st \<noteq> 0 \<Longrightarrow> reports_failure (const_backend (RHandle 0) st) c w"
  by (simp add: reports_failure_def status_left_def const_backend_def)

section \<open>The claims\<close>

text \<open>
  C1 (as amended). A frame is published for a fresh buffer, copied \<open>n\<close> times with
  \<open>n < 2 ^ 32\<close>, and the \<open>n + 1\<close> handles are destroyed. While at most \<open>n\<close> of them have
  been destroyed no reclamation notification has been issued; the last destroy issues
  exactly one, for that frame. The bound is needed: the counter has 32 bits.
\<close>

theorem refcount_release_once:
  assumes "heap s p = Some d" and "refcount d = 0" and "n < 2 ^ 32"
  shows "(\<forall>k\<le>n. refcount_scenario n k source p s = Some (released s))
    \<and> refcount_scenario n (Suc n) source p s
        = Some (released s @ [\<lparr>m_source = Some source, m_data = Some p\<rparr>])"
  using assms by (simp add: scenario_quiet scenario_last)

theorem refcount_release_once_witness:
  "(3::nat) < 2 ^ 32
   \<and> refcount_scenario 3 0 7 0 fresh_state = Some []
   \<and> refcount_scenario 3 1 7 0 fresh_state = Some []
   \<and> refcount_scenario 3 2 7 0 fresh_state = Some []
   \<and> refcount_scenario 3 3 7 0 fresh_state = Some []
   \<and> refcount_scenario 3 4 7 0 fresh_state = Some [\<lparr>m_source = Some 7, m_data = Some 0\<rparr>]"
proof -
  have n: "(3::nat) < 2 ^ 32" by simp
  have e: "released fresh_state = []" by (simp add: fresh_state_def)
  note t = refcount_release_once [OF fresh_state_heap _ n, of 7, simplified e]
  have q: "(\<forall>k\<le>3. refcount_scenario 3 k 7 0 fresh_state = Some [])
    \<and> refcount_scenario 3 (Suc 3) 7 0 fresh_state = Some [\<lparr>m_source = Some 7, m_data = Some 0\<rparr>]"
    using t by simp
  from q have "refcount_scenario 3 0 7 0 fresh_state = Some []"
    and "refcount_scenario 3 1 7 0 fresh_state = Some []"
    and "refcount_scenario 3 2 7 0 fresh_state = Some []"
    and "refcount_scenario 3 3 7 0 fresh_state = Some []"
    and "refcount_scenario 3 4 7 0 fresh_state = Some [\<lparr>m_source = Some 7, m_data = Some 0\<rparr>]"
    by simp_all
  with n show ?thesis by blast
qed

text \<open>
  C1 as stated, for every \<open>n\<close>, fails at \<open>n = 2 ^ 32\<close>: the counter, 1 after publishing,
  is 1 again after the copies, and the first of the \<open>n + 1\<close> destroys already notifies.
\<close>

theorem refcount_release_early:
  "refcount_scenario 4294967296 1 7 0 fresh_state
     = Some [\<lparr>m_source = Some 7, m_data = Some 0\<rparr>]"
proof -
  have e: "released fresh_state = []" by (simp add: fresh_state_def)
  have "refcount_scenario (2 ^ 32) 1 7 0 fresh_state
      = Some (released fresh_state @ [\<lparr>m_source = Some 7, m_data = Some 0\<rparr>])"
    by (rule scenario_early [OF fresh_state_heap]) simp
  then show ?thesis by (simp add: e)
qed

text \<open>
  C2. On a default-constructed frame \<open>size()\<close> is 0, \<open>data()\<close> is null, \<open>time()\<close> is the
  epoch and the conversion to \<open>bool\<close> is false, in every store: no pointer is
  dereferenced, since a dereference would fault in a store that holds nothing.
\<close>

theorem null_frame_accessors:
  "Frame_size Frame_default s = Some 0
   \<and> Frame_data Frame_default s = Some None
   \<and> Frame_time Frame_default s = Some epoch
   \<and> \<not> Frame_bool Frame_default"
  by (simp add: Frame_size_def Frame_data_def Frame_time_def Frame_bool_def Frame_default_def)

text \<open>
  C3 (as amended). Move construction of a frame, a source, a sink or a listener yields the
  moved value and leaves the moved-from object equal to a default-constructed one; the
  move constructors take neither the store nor the world, so they change no counter and
  call no backend function. For distinct objects \<open>a\<close> and \<open>b\<close> the assignment
  \<open>a = std::move(b)\<close> gives \<open>a\<close> the value of \<open>b\<close>, leaves \<open>b\<close> default and then destroys
  the previous value of \<open>a\<close> as its destructor would; when \<open>a\<close> was empty, store and world
  are unchanged. The assignment of an object to itself changes neither the object nor the
  store nor the world.
\<close>

theorem move_leaves_source_empty:
  "Frame_move f = (f, Frame_default)
   \<and> VideoSource_move x = (x, Wrapper_default)
   \<and> VideoSink_move x = (x, Wrapper_default)
   \<and> SourceListener_move l = (l, Listener_default)
   \<and> SinkListener_move l = (l, Listener_default)
   \<and> (a \<noteq> b \<longrightarrow>
        Frame_move_assign a b fs s
          = map_option (Pair (fs(b := Frame_default, a := fs b))) (Frame_dtor (fs a) s)
        \<and> VideoSource_move_assign be a b ws w
          = (ws(b := Wrapper_default, a := ws b), snd (VideoSource_dtor be (ws a) w))
        \<and> VideoSink_move_assign be a b ws w
          = (ws(b := Wrapper_default, a := ws b), snd (VideoSink_dtor be (ws a) w)))
   \<and> (a \<noteq> b \<and> m_data (fs a) = None \<longrightarrow>
        Frame_move_assign a b fs s = Some (fs(b := Frame_default, a := fs b), s))
   \<and> (a \<noteq> b \<and> m_handle (ws a) = 0 \<longrightarrow>
        VideoSource_move_assign be a b ws w = (ws(b := Wrapper_default, a := ws b), w)
        \<and> VideoSink_move_assign be a b ws w = (ws(b := Wrapper_default, a := ws b), w))
   \<and> Frame_move_assign a a fs s = Some (fs, s)
   \<and> VideoSource_move_assign be a a ws w = (ws, w)
   \<and> VideoSink_move_assign be a a ws w = (ws, w)"
  by (simp add: Frame_move_def Frame_swap_eq VideoSource_move_def VideoSink_move_def
      SourceListener_move_def SinkListener_move_def Wrapper_swap_eq Listener_swap_eq
      Frame_move_assign_eq VideoSource_move_assign_eq VideoSink_move_assign_eq
      VideoSource_dtor_null VideoSink_dtor_null Frame_dtor_null
      VideoSource_dtor_default VideoSink_dtor_default Frame_dtor_default)

theorem move_leaves_source_empty_witness:
  "(0::obj) \<noteq> 1 \<and> m_data (frame_objs 0) = None \<and> m_handle (wrapper_objs 0) = 0
   \<and> Frame_move_assign 0 1 frame_objs live_state
       = Some (frame_objs(1 := Frame_default, 0 := frame_objs 1), live_state)
   \<and> VideoSource_move_assign (const_backend RVoid 0) 0 1 wrapper_objs empty_world
       = (wrapper_objs(1 := Wrapper_default, 0 := wrapper_objs 1), empty_world)
   \<and> VideoSink_move_assign (const_backend RVoid 0) 0 1 wrapper_objs empty_world
       = (wrapper_objs(1 := Wrapper_default, 0 := wrapper_objs 1), empty_world)
   \<and> frame_objs 1 = \<lparr>m_source = Some 7, m_data = Some 0\<rparr>
   \<and> wrapper_objs 1 = \<lparr>m_handle = 7, m_status = 0\<rparr>"
proof -
  have n: "(0::obj) \<noteq> 1" by simp
  have a: "m_data (frame_objs 0) = None" by (simp add: frame_objs_def Frame_default_def)
  have b: "m_handle (wrapper_objs 0) = 0" by (simp add: wrapper_objs_def Wrapper_default_def)
  have c: "frame_objs 1 = \<lparr>m_source = Some 7, m_data = Some 0\<rparr>"
    by (simp add: frame_objs_def)
  have d: "wrapper_objs 1 = \<lparr>m_handle = 7, m_status = 0\<rparr>"
    by (simp add: wrapper_objs_def)
  note t = move_leaves_source_empty [where a = 0 and b = 1 and fs = frame_objs
      and s = live_state and be = "const_backend RVoid 0" and ws = wrapper_objs
      and w = empty_world and f = Frame_default and x = Wrapper_default
      and l = Listener_default]
  from t n a b c d show ?thesis by blast
qed

text \<open>
  C3 as stated fails for move assignment to an object that holds a resource. Assigning the
  moved source 7 to another source, which holds 5, calls \<open>ReleaseSource\<close> for 5; and when
  two frames share a buffer, assigning the one moved to the other takes the shared counter
  from 2 to 1.
\<close>

theorem move_assign_releases_target:
  "calls (snd (VideoSource_move_assign (const_backend RVoid 0) 0 1 holding_objs empty_world))
     = [(ReleaseSource 5, 0)]
   \<and> map_option snd (Frame_move_assign 0 1 shared_objs shared_state) = Some live_state"
  by (simp add: VideoSource_move_assign_eq VideoSource_dtor_def call_eq const_backend_def
      empty_world_def Let_def holding_objs_def shared_objs_def
      Frame_move_assign_eq Frame_dtor_def DecRef_def atomic_dec_def shared_state_def
      live_state_def option.map_comp comp_def)

text \<open>
  C4. Copying a frame yields a handle with the same two pointers. For a frame that is not
  null the store changes in the counter of its buffer alone, which goes up by one (in the
  counter's 32-bit arithmetic): the image and its address are the ones the original has.
  For a null frame the copy is null and the store is unchanged.
\<close>

theorem Frame_copy_shares_buffer:
  "(m_data f = None \<longrightarrow> Frame_copy f s = Some (f, s))
   \<and> (m_data f = Some p \<and> heap s p = Some d \<longrightarrow>
        Frame_copy f s = Some (f, s\<lparr>heap := (heap s)(p \<mapsto> d\<lparr>refcount := refcount d + 1\<rparr>)\<rparr>)
        \<and> Frame_data f (s\<lparr>heap := (heap s)(p \<mapsto> d\<lparr>refcount := refcount d + 1\<rparr>)\<rparr>)
            = Frame_data f s
        \<and> Frame_size f (s\<lparr>heap := (heap s)(p \<mapsto> d\<lparr>refcount := refcount d + 1\<rparr>)\<rparr>)
            = Frame_size f s)"
  by (simp add: Frame_copy_def atomic_inc_def Frame_data_def Frame_size_def)

theorem Frame_copy_shares_buffer_witness:
  "m_data Frame_default = None
   \<and> Frame_copy Frame_default live_state = Some (Frame_default, live_state)
   \<and> m_data \<lparr>m_source = Some 7, m_data = Some 0\<rparr> = Some 0
   \<and> Frame_copy \<lparr>m_source = Some 7, m_data = Some 0\<rparr> live_state
       = Some (\<lparr>m_source = Some 7, m_data = Some 0\<rparr>,
           \<lparr>heap = [0 \<mapsto> \<lparr>refcount = 2, timestamp = 1000,
                       image = \<lparr>img_data = Some 64, img_bytes = [1, 2, 3]\<rparr>\<rparr>],
            released = []\<rparr>)"
proof -
  let ?f = "\<lparr>m_source = Some 7, m_data = Some (0::nat)\<rparr>"
  let ?d = "\<lparr>refcount = 1, timestamp = 1000,
      image = \<lparr>img_data = Some 64, img_bytes = [1, 2, 3]\<rparr>\<rparr>"
  have a: "m_data Frame_default = None" by (simp add: Frame_default_def)
  have b: "m_data ?f = Some 0" by simp
  note t0 = Frame_copy_shares_buffer [where f = Frame_default and s = live_state]
  note t1 = Frame_copy_shares_buffer [where f = ?f and s = live_state and p = 0 and d = ?d]
  from t0 a have c0: "Frame_copy Frame_default live_state = Some (Frame_default, live_state)"
    by blast
  from t1 b live_state_heap
  have "Frame_copy ?f live_state
      = Some (?f, live_state\<lparr>heap := (heap live_state)(0 \<mapsto> ?d\<lparr>refcount := refcount ?d + 1\<rparr>)\<rparr>)"
    by blast
  then have c1: "Frame_copy ?f live_state
      = Some (?f, \<lparr>heap = [0 \<mapsto> \<lparr>refcount = 2, timestamp = 1000,
                       image = \<lparr>img_data = Some 64, img_bytes = [1, 2, 3]\<rparr>\<rparr>],
            released = []\<rparr>)"
    by (simp add: live_state_def)
  from a b c0 c1 show ?thesis by blast
qed

text \<open>
  C5 (as amended). Every accessor method of an object of \<open>VideoProperty\<close>, of the source
  classes and of the sink classes makes its first backend call with the status at 0, and
  leaves in \<open>m_status\<close> the status that call left; the outcome does not depend on the
  status the object held before. The static \<open>EnumerateUSBCameras\<close> has no object and no
  stored status: it makes its call with a local status at 0 and returns the backend's
  answer, and the status the call left is in no part of its result.
\<close>

theorem accessors_reset_status:
  "(\<exists>c rest. calls (snd (run_property_accessor be m p w)) = calls w @ (c, 0) # rest
      \<and> m_status (fst (run_property_accessor be m p w)) = status_left be c w)
   \<and> run_property_accessor be m (p\<lparr>m_status := st\<rparr>) w = run_property_accessor be m p w
   \<and> (\<exists>c rest. calls (snd (run_wrapper_accessor be m' x w)) = calls w @ (c, 0) # rest
      \<and> m_status (fst (run_wrapper_accessor be m' x w)) = status_left be c w)
   \<and> run_wrapper_accessor be m' (x\<lparr>m_status := st\<rparr>) w = run_wrapper_accessor be m' x w
   \<and> USBCamera_EnumerateUSBCameras be w =
       (as_cameras (fst (be EnumerateUSBCameras 0 (bk w))),
        \<lparr>calls = calls w @ [(EnumerateUSBCameras, 0)],
         bk = snd (snd (be EnumerateUSBCameras 0 (bk w)))\<rparr>)"
  using property_accessor_log [of be m p w] wrapper_accessor_log [of be m' x w]
  by (simp add: property_accessor_indep wrapper_accessor_indep enumerate_eq)

text \<open>
  C5 as stated fails for \<open>EnumerateUSBCameras\<close>, which the claim counts among the
  accessors: a call the backend answers with status 1 and one it answers with status 2
  have the same result, so no last status reflects the operation.
\<close>

theorem enumerate_status_dropped:
  "status_left (const_backend (RCameras []) 1) EnumerateUSBCameras empty_world = 1
   \<and> status_left (const_backend (RCameras []) 2) EnumerateUSBCameras empty_world = 2
   \<and> USBCamera_EnumerateUSBCameras (const_backend (RCameras []) 1) empty_world
       = ([], \<lparr>calls = [(EnumerateUSBCameras, 0)], bk = ()\<rparr>)
   \<and> USBCamera_EnumerateUSBCameras (const_backend (RCameras []) 2) empty_world
       = ([], \<lparr>calls = [(EnumerateUSBCameras, 0)], bk = ()\<rparr>)"
  by (simp add: status_left_def USBCamera_EnumerateUSBCameras_def invoke_eq const_backend_def
      empty_world_def Let_def)

text \<open>
  C6. Copy construction of a source or a sink whose handle is 0 yields the default object
  and leaves the world as it is: no call, the backend's state unchanged. With any other
  handle it makes exactly one call, \<open>CopySource\<close> or \<open>CopySink\<close> of that handle, and
  adopts the handle and the status the backend answers with.
\<close>

theorem copy_requests_reference:
  "(m_handle x = 0 \<longrightarrow>
      VideoSource_copy be x w = (Wrapper_default, w) \<and> VideoSink_copy be x w = (Wrapper_default, w))
   \<and> (m_handle x \<noteq> 0 \<longrightarrow>
        calls (snd (VideoSource_copy be x w)) = calls w @ [(CopySource (m_handle x), 0)]
        \<and> m_handle (fst (VideoSource_copy be x w))
            = as_handle (fst (be (CopySource (m_handle x)) 0 (bk w)))
        \<and> m_status (fst (VideoSource_copy be x w)) = status_left be (CopySource (m_handle x)) w
        \<and> calls (snd (VideoSink_copy be x w)) = calls w @ [(CopySink (m_handle x), 0)]
        \<and> m_handle (fst (VideoSink_copy be x w))
            = as_handle (fst (be (CopySink (m_handle x)) 0 (bk w)))
        \<and> m_status (fst (VideoSink_copy be x w)) = status_left be (CopySink (m_handle x)) w)"
  by (simp add: VideoSource_copy_def VideoSink_copy_def call_eq Let_def Wrapper_default_def
      status_left_def)

theorem copy_requests_reference_witness:
  "m_handle Wrapper_default = 0
   \<and> VideoSource_copy (const_backend (RHandle 5) 0) Wrapper_default empty_world
       = (Wrapper_default, empty_world)
   \<and> VideoSink_copy (const_backend (RHandle 5) 0) Wrapper_default empty_world
       = (Wrapper_default, empty_world)
   \<and> m_handle \<lparr>m_handle = 5, m_status = 9\<rparr> \<noteq> 0
   \<and> calls (snd (VideoSource_copy (const_backend (RHandle 5) 0)
        \<lparr>m_handle = 5, m_status = 9\<rparr> empty_world)) = [(CopySource 5, 0)]
   \<and> m_handle (fst (VideoSource_copy (const_backend (RHandle 5) 0)
        \<lparr>m_handle = 5, m_status = 9\<rparr> empty_world)) = 5
   \<and> calls (snd (VideoSink_copy (const_backend (RHandle 5) 0)
        \<lparr>m_handle = 5, m_status = 9\<rparr> empty_world)) = [(CopySink 5, 0)]"
proof -
  let ?be = "const_backend (RHandle 5) 0"
  let ?x = "\<lparr>m_handle = 5, m_status = 9\<rparr>"
  have a: "m_handle Wrapper_default = 0" by (simp add: Wrapper_default_def)
  have b: "m_handle ?x \<noteq> 0" by simp
  note t0 = copy_requests_reference [where x = Wrapper_default and be = ?be and w = empty_world]
  note t1 = copy_requests_reference [where x = ?x and be = ?be and w = empty_world]
  from t0 a have c0: "VideoSource_copy ?be Wrapper_default empty_world = (Wrapper_default, empty_world)
      \<and> VideoSink_copy ?be Wrapper_default empty_world = (Wrapper_default, empty_world)"
    by blast
  from t1 b have "calls (snd (VideoSource_copy ?be ?x empty_world))
        = calls empty_world @ [(CopySource (m_handle ?x), 0)]
      \<and> m_handle (fst (VideoSource_copy ?be ?x empty_world))
        = as_handle (fst (?be (CopySource (m_handle ?x)) 0 (bk empty_world)))
      \<and> calls (snd (VideoSink_copy ?be ?x empty_world))
        = calls empty_world @ [(CopySink (m_handle ?x), 0)]"
    by blast
  then have c1: "calls (snd (VideoSource_copy ?be ?x empty_world)) = [(CopySource 5, 0)]
      \<and> m_handle (fst (VideoSource_copy ?be ?x empty_world)) = 5
      \<and> calls (snd (VideoSink_copy ?be ?x empty_world)) = [(CopySink 5, 0)]"
    by (simp add: empty_world_def const_backend_def)
  from a b c0 c1 show ?thesis by blast
qed

text \<open>
  C7. The destructor of a source, a sink or a listener makes no backend call when the
  handle is 0 and exactly one release call, entered with status 0, otherwise; what the
  release reports is the value left in the status variable the call was given. The
  destructors are total functions of the backend's answer: an error is a status value and
  nothing else.
\<close>

theorem dtor_releases_once:
  "(m_handle x = 0 \<longrightarrow>
      snd (VideoSource_dtor be x w) = w \<and> snd (VideoSink_dtor be x w) = w)
   \<and> (m_handle l = 0 \<longrightarrow>
      snd (SourceListener_dtor be l w) = w \<and> snd (SinkListener_dtor be l w) = w)
   \<and> (m_handle x \<noteq> 0 \<longrightarrow>
        calls (snd (VideoSource_dtor be x w)) = calls w @ [(ReleaseSource (m_handle x), 0)]
        \<and> m_status (fst (VideoSource_dtor be x w)) = status_left be (ReleaseSource (m_handle x)) w
        \<and> calls (snd (VideoSink_dtor be x w)) = calls w @ [(ReleaseSink (m_handle x), 0)]
        \<and> m_status (fst (VideoSink_dtor be x w)) = status_left be (ReleaseSink (m_handle x)) w)
   \<and> (m_handle l \<noteq> 0 \<longrightarrow>
        calls (snd (SourceListener_dtor be l w))
          = calls w @ [(RemoveSourceListener (m_handle l), 0)]
        \<and> fst (SourceListener_dtor be l w) = status_left be (RemoveSourceListener (m_handle l)) w
        \<and> calls (snd (SinkListener_dtor be l w))
          = calls w @ [(RemoveSinkListener (m_handle l), 0)]
        \<and> fst (SinkListener_dtor be l w) = status_left be (RemoveSinkListener (m_handle l)) w)"
  by (simp add: VideoSource_dtor_def VideoSink_dtor_def SourceListener_dtor_def
      SinkListener_dtor_def call_eq invoke_eq Let_def status_left_def)

theorem dtor_releases_once_witness:
  "m_handle Wrapper_default = 0 \<and> m_handle Listener_default = 0
   \<and> snd (VideoSource_dtor (const_backend RVoid 3) Wrapper_default empty_world) = empty_world
   \<and> snd (VideoSink_dtor (const_backend RVoid 3) Wrapper_default empty_world) = empty_world
   \<and> snd (SourceListener_dtor (const_backend RVoid 3) Listener_default empty_world) = empty_world
   \<and> snd (SinkListener_dtor (const_backend RVoid 3) Listener_default empty_world) = empty_world
   \<and> m_handle \<lparr>m_handle = 5, m_status = 9\<rparr> \<noteq> 0 \<and> m_handle \<lparr>m_handle = 6\<rparr> \<noteq> 0
   \<and> calls (snd (VideoSource_dtor (const_backend RVoid 3)
        \<lparr>m_handle = 5, m_status = 9\<rparr> empty_world)) = [(ReleaseSource 5, 0)]
   \<and> m_status (fst (VideoSource_dtor (const_backend RVoid 3)
        \<lparr>m_handle = 5, m_status = 9\<rparr> empty_world)) = 3
   \<and> calls (snd (VideoSink_dtor (const_backend RVoid 3)
        \<lparr>m_handle = 5, m_status = 9\<rparr> empty_world)) = [(ReleaseSink 5, 0)]
   \<and> calls (snd (SourceListener_dtor (const_backend RVoid 3) \<lparr>m_handle = 6\<rparr> empty_world))
       = [(RemoveSourceListener 6, 0)]
   \<and> calls (snd (SinkListener_dtor (const_backend RVoid 3) \<lparr>m_handle = 6\<rparr> empty_world))
       = [(RemoveSinkListener 6, 0)]"
proof -
  let ?be = "const_backend RVoid 3"
  let ?x = "\<lparr>m_handle = 5, m_status = 9\<rparr>"
  let ?l = "\<lparr>m_handle = 6\<rparr>"
  have a: "m_handle Wrapper_default = 0" by (simp add: Wrapper_default_def)
  have a': "m_handle Listener_default = 0" by (simp add: Listener_default_def)
  have b: "m_handle ?x \<noteq> 0" by simp
  have b': "m_handle ?l \<noteq> 0" by simp
  note t0 = dtor_releases_once [where x = Wrapper_default and l = Listener_default
      and be = ?be and w = empty_world]
  note t1 = dtor_releases_once [where x = ?x and l = ?l and be = ?be and w = empty_world]
  from t0 a a' have c0: "snd (VideoSource_dtor ?be Wrapper_default empty_world) = empty_world
      \<and> snd (VideoSink_dtor ?be Wrapper_default empty_world) = empty_world
      \<and> snd (SourceListener_dtor ?be Listener_default empty_world) = empty_world
      \<and> snd (SinkListener_dtor ?be Listener_default empty_world) = empty_world"
    by blast
  from t1 b b' have "calls (snd (VideoSource_dtor ?be ?x empty_world))
        = calls empty_world @ [(ReleaseSource (m_handle ?x), 0)]
      \<and> m_status (fst (VideoSource_dtor ?be ?x empty_world))
        = status_left ?be (ReleaseSource (m_handle ?x)) empty_world
      \<and> calls (snd (VideoSink_dtor ?be ?x empty_world))
        = calls empty_world @ [(ReleaseSink (m_handle ?x), 0)]
      \<and> calls (snd (SourceListener_dtor ?be ?l empty_world))
        = calls empty_world @ [(RemoveSourceListener (m_handle ?l), 0)]
      \<and> calls (snd (SinkListener_dtor ?be ?l empty_world))
        = calls empty_world @ [(RemoveSinkListener (m_handle ?l), 0)]"
    by blast
  then have c1: "calls (snd (VideoSource_dtor ?be ?x empty_world)) = [(ReleaseSource 5, 0)]
      \<and> m_status (fst (VideoSource_dtor ?be ?x empty_world)) = 3
      \<and> calls (snd (VideoSink_dtor ?be ?x empty_world)) = [(ReleaseSink 5, 0)]
      \<and> calls (snd (SourceListener_dtor ?be ?l empty_world)) = [(RemoveSourceListener 6, 0)]
      \<and> calls (snd (SinkListener_dtor ?be ?l empty_world)) = [(RemoveSinkListener 6, 0)]"
    by (simp add: empty_world_def const_backend_def status_left_def)
  from a a' b b' c0 c1 show ?thesis by blast
qed

text \<open>
  C8 (as amended). When the backend reports a failure (handle 0 and a status other than
  0), the constructors of the source and sink classes yield an object with handle 0 and
  that status in \<open>m_status\<close>. A property created by a source then has handle 0, type
  \<open>kNone\<close> and status 0 of its own, and the status is in the source's \<open>m_status\<close>. A
  listener is then equal to a default-constructed one: it holds no status.
\<close>

theorem failed_construction:
  "(reports_failure be (CreateUSBSourceDev name dev) w \<longrightarrow>
      m_handle (fst (USBCamera_ctor_dev be name dev w)) = 0
      \<and> m_status (fst (USBCamera_ctor_dev be name dev w))
          = status_left be (CreateUSBSourceDev name dev) w
      \<and> m_status (fst (USBCamera_ctor_dev be name dev w)) \<noteq> 0)
   \<and> (reports_failure be (CreateUSBSourcePath name path) w \<longrightarrow>
      m_handle (fst (USBCamera_ctor_path be name path w)) = 0
      \<and> m_status (fst (USBCamera_ctor_path be name path w))
          = status_left be (CreateUSBSourcePath name path) w
      \<and> m_status (fst (USBCamera_ctor_path be name path w)) \<noteq> 0)
   \<and> (reports_failure be (CreateHTTPSource name url) w \<longrightarrow>
      m_handle (fst (HTTPCamera_ctor be name url w)) = 0
      \<and> m_status (fst (HTTPCamera_ctor be name url w))
          = status_left be (CreateHTTPSource name url) w
      \<and> m_status (fst (HTTPCamera_ctor be name url w)) \<noteq> 0)
   \<and> (reports_failure be (CreateCvSource name) w \<longrightarrow>
      m_handle (fst (CvSource_ctor be name w)) = 0
      \<and> m_status (fst (CvSource_ctor be name w)) = status_left be (CreateCvSource name) w
      \<and> m_status (fst (CvSource_ctor be name w)) \<noteq> 0)
   \<and> (reports_failure be (CreateHTTPSink name listenAddress port) w \<longrightarrow>
      m_handle (fst (HTTPSink_ctor be name listenAddress port w)) = 0
      \<and> m_status (fst (HTTPSink_ctor be name listenAddress port w))
          = status_left be (CreateHTTPSink name listenAddress port) w
      \<and> m_status (fst (HTTPSink_ctor be name listenAddress port w)) \<noteq> 0)
   \<and> (reports_failure be (CreateCvSink name) w \<longrightarrow>
      m_handle (fst (CvSink_ctor be name w)) = 0
      \<and> m_status (fst (CvSink_ctor be name w)) = status_left be (CreateCvSink name) w
      \<and> m_status (fst (CvSink_ctor be name w)) \<noteq> 0)
   \<and> (reports_failure be (CreateCvSinkCallback name cb) w \<longrightarrow>
      m_handle (fst (CvSink_ctor_callback be name cb w)) = 0
      \<and> m_status (fst (CvSink_ctor_callback be name cb w))
          = status_left be (CreateCvSinkCallback name cb) w
      \<and> m_status (fst (CvSink_ctor_callback be name cb w)) \<noteq> 0)
   \<and> (reports_failure be (CreateSourceProperty (m_handle x) name t) w \<longrightarrow>
      fst (CvSource_CreateProperty be name t x w) = \<lparr>m_handle = 0, m_status = 0, m_type = kNone\<rparr>
      \<and> m_status (fst (snd (CvSource_CreateProperty be name t x w)))
           = status_left be (CreateSourceProperty (m_handle x) name t) w
      \<and> m_status (fst (snd (CvSource_CreateProperty be name t x w))) \<noteq> 0)
   \<and> (reports_failure be (AddSourceListener cb eventMask) w \<longrightarrow>
      fst (SourceListener_ctor be cb eventMask w) = Listener_default)
   \<and> (reports_failure be (AddSinkListener cb eventMask) w \<longrightarrow>
      fst (SinkListener_ctor be cb eventMask w) = Listener_default)"
  by (simp add: reports_failure_def status_left_def USBCamera_ctor_dev_def USBCamera_ctor_path_def
      HTTPCamera_ctor_def CvSource_ctor_def HTTPSink_ctor_def CvSink_ctor_def
      CvSink_ctor_callback_def CvSource_CreateProperty_def VideoProperty_ctor_def
      SourceListener_ctor_def SinkListener_ctor_def Listener_default_def Wrapper_default_def
      call_eq invoke_eq Let_def)

theorem failed_construction_witness:
  "m_handle (fst (USBCamera_ctor_dev (const_backend (RHandle 0) 1) ''cam'' 0 empty_world)) = 0
   \<and> m_status (fst (USBCamera_ctor_dev (const_backend (RHandle 0) 1) ''cam'' 0 empty_world)) = 1
   \<and> m_handle (fst (USBCamera_ctor_path (const_backend (RHandle 0) 1) ''cam'' ''/dev/video0''
        empty_world)) = 0
   \<and> m_handle (fst (HTTPCamera_ctor (const_backend (RHandle 0) 1) ''cam'' ''http://h/''
        empty_world)) = 0
   \<and> m_handle (fst (CvSource_ctor (const_backend (RHandle 0) 1) ''cam'' empty_world)) = 0
   \<and> m_handle (fst (HTTPSink_ctor (const_backend (RHandle 0) 1) ''cam'' '''' 1181
        empty_world)) = 0
   \<and> m_handle (fst (CvSink_ctor (const_backend (RHandle 0) 1) ''cam'' empty_world)) = 0
   \<and> m_handle (fst (CvSink_ctor_callback (const_backend (RHandle 0) 1) ''cam'' 4
        empty_world)) = 0
   \<and> fst (CvSource_CreateProperty (const_backend (RHandle 0) 1) ''cam'' 2
        \<lparr>m_handle = 5, m_status = 0\<rparr> empty_world)
       = \<lparr>m_handle = 0, m_status = 0, m_type = kNone\<rparr>
   \<and> m_status (fst (snd (CvSource_CreateProperty (const_backend (RHandle 0) 1) ''cam'' 2
        \<lparr>m_handle = 5, m_status = 0\<rparr> empty_world))) = 1
   \<and> fst (SourceListener_ctor (const_backend (RHandle 0) 1) 4 1 empty_world) = Listener_default
   \<and> fst (SinkListener_ctor (const_backend (RHandle 0) 1) 4 1 empty_world) = Listener_default"
proof -
  let ?be = "const_backend (RHandle 0) 1"
  have f: "reports_failure ?be c empty_world" for c
    by (rule const_backend_fails) simp
  have s: "status_left ?be c empty_world = 1" for c
    by (simp add: status_left_def const_backend_def)
  note t = failed_construction [where be = ?be and w = empty_world and name = "''cam''"
      and dev = 0 and path = "''/dev/video0''" and url = "''http://h/''" and listenAddress = "''''"
      and port = 1181 and cb = 4 and x = "\<lparr>m_handle = 5, m_status = 0\<rparr>" and t = 2
      and eventMask = 1]
  from t f show ?thesis
    unfolding s by blast
qed

text \<open>
  C8 as stated fails for listeners: a construction that fails with status 1 and one
  that fails with status 2 yield the same listener and the same world, so no status is
  left for the caller to inspect.
\<close>

theorem listener_status_dropped:
  "reports_failure (const_backend (RHandle 0) 1) (AddSourceListener 3 1) empty_world
   \<and> reports_failure (const_backend (RHandle 0) 2) (AddSourceListener 3 1) empty_world
   \<and> SourceListener_ctor (const_backend (RHandle 0) 1) 3 1 empty_world
       = (\<lparr>m_handle = 0\<rparr>, \<lparr>calls = [(AddSourceListener 3 1, 0)], bk = ()\<rparr>)
   \<and> SourceListener_ctor (const_backend (RHandle 0) 2) 3 1 empty_world
       = (\<lparr>m_handle = 0\<rparr>, \<lparr>calls = [(AddSourceListener 3 1, 0)], bk = ()\<rparr>)"
  by (simp add: reports_failure_def status_left_def SourceListener_ctor_def invoke_eq
      const_backend_def empty_world_def Let_def)

text \<open>
  C10. Constructing a \<open>VideoProperty\<close> from handle 0 yields type \<open>kNone\<close> and status 0
  and leaves the world as it is; from any other handle it makes the one call
  \<open>GetPropertyType\<close> and takes the type from its answer.
\<close>

theorem null_property_type:
  "VideoProperty_ctor be 0 w = (\<lparr>m_handle = 0, m_status = 0, m_type = kNone\<rparr>, w)
   \<and> (h \<noteq> 0 \<longrightarrow>
        calls (snd (VideoProperty_ctor be h w)) = calls w @ [(GetPropertyType h, 0)]
        \<and> m_type (fst (VideoProperty_ctor be h w)) = as_int (fst (be (GetPropertyType h) 0 (bk w))))"
  by (simp add: VideoProperty_ctor_def invoke_eq Let_def)

theorem null_property_type_witness:
  "(4 :: 32 word) \<noteq> 0
   \<and> VideoProperty_ctor (const_backend (RInt 2) 0) 0 empty_world
       = (\<lparr>m_handle = 0, m_status = 0, m_type = kNone\<rparr>, empty_world)
   \<and> calls (snd (VideoProperty_ctor (const_backend (RInt 2) 0) 4 empty_world))
       = [(GetPropertyType 4, 0)]
   \<and> m_type (fst (VideoProperty_ctor (const_backend (RInt 2) 0) 4 empty_world)) = 2"
proof -
  let ?be = "const_backend (RInt 2) 0"
  have b: "(4 :: 32 word) \<noteq> 0" by simp
  note t = null_property_type [where be = ?be and w = empty_world and h = 4]
  from t b have "VideoProperty_ctor ?be 0 empty_world
        = (\<lparr>m_handle = 0, m_status = 0, m_type = kNone\<rparr>, empty_world)
      \<and> calls (snd (VideoProperty_ctor ?be 4 empty_world))
        = calls empty_world @ [(GetPropertyType 4, 0)]
      \<and> m_type (fst (VideoProperty_ctor ?be 4 empty_world))
        = as_int (fst (?be (GetPropertyType 4) 0 (bk empty_world)))"
    by blast
  then have "VideoProperty_ctor ?be 0 empty_world
        = (\<lparr>m_handle = 0, m_status = 0, m_type = kNone\<rparr>, empty_world)
      \<and> calls (snd (VideoProperty_ctor ?be 4 empty_world)) = [(GetPropertyType 4, 0)]
      \<and> m_type (fst (VideoProperty_ctor ?be 4 empty_world)) = 2"
    by (simp add: empty_world_def const_backend_def)
  with b show ?thesis by blast
qed

end
